theory Spec2Isabelle
  imports Main "HOL-Library.AList"
begin

section \<open>JavaScript values the adapters handle\<close>

text \<open>
  The adapters are TypeScript. A thrown exception (or a rejected promise that is awaited)
  is the \<open>Inl\<close> branch of a sum, a returned value the \<open>Inr\<close> branch. A string is
  an Isabelle string holding the UTF-8 bytes of the text, so that equality, emptiness and
  concatenation are those of the text. What JavaScript computes from code points or from
  UTF-16 code units (\<open>trim\<close>, \<open>toLowerCase\<close>, \<open>toUpperCase\<close>, \<open>length\<close>, \<open>substring\<close>)
  is not written out here: those operations are taken from outside, and every statement
  holds for whatever they are. Finite numbers are integers (millisecond clock readings,
  token counts, minutes).
\<close>

datatype exn =
    Error string
  | TypeError string
  | SyntaxError string
  | TimeoutError string

datatype number = Num int | NaN | PosInfinity | NegInfinity

datatype jval =
    JUndefined
  | JNull
  | JBool bool
  | JNum int
  | JStr string
  | JArr "jval list"
  | JObj "(string \<times> jval) list"

type_synonym jobj = "(string \<times> jval) list"

text \<open>Truthiness of an optional string (\<open>undefined\<close> and the empty string are falsy).\<close>

definition truthy_str :: "string option \<Rightarrow> bool" where
  "truthy_str s = (case s of None \<Rightarrow> False | Some t \<Rightarrow> t \<noteq> [])"

text \<open>\<open>s || d\<close> for an optional string \<open>s\<close> and a string \<open>d\<close>.\<close>

definition str_or :: "string option \<Rightarrow> string \<Rightarrow> string" where
  "str_or s d = (case s of None \<Rightarrow> d | Some t \<Rightarrow> if t = [] then d else t)"

text \<open>An optional number or \<open>undefined\<close> as a JSON value.\<close>

definition jnum_opt :: "int option \<Rightarrow> jval" where
  "jnum_opt n = (case n of None \<Rightarrow> JUndefined | Some k \<Rightarrow> JNum k)"

text \<open>Decimal rendering of a natural number, as a template literal renders an HTTP status.\<close>

definition digit_char :: "nat \<Rightarrow> char" where
  "digit_char d = ''0123456789'' ! (d mod 10)"

fun show_nat :: "nat \<Rightarrow> string" where
  "show_nat n = (if n < 10 then [digit_char n] else show_nat (n div 10) @ [digit_char n])"

declare show_nat.simps [simp del]

definition show_bool :: "bool \<Rightarrow> string" where
  "show_bool b = (if b then ''true'' else ''false'')"

section \<open>Cache store\<close>

text \<open>
  Modelled from the spec: \<open>readCache\<close>, \<open>writeCache\<close> and \<open>CacheEntry\<close> are imported
  from \<open>web-shared.js\<close>, which is not among the sources. The definitions follow the
  contract of the cache store: an entry is a value with an expiry timestamp; a write
  unconditionally inserts or overwrites the entry with \<open>expiresAtEpochMs = now + ttlMs\<close>;
  a read returns absent when no entry exists or when the entry has expired, in which case
  the stale entry is evicted. The contract asks for a miss when \<open>now > expiresAtEpochMs\<close>
  and for a write with \<open>ttlMs <= 0\<close> to be a miss on the very next read, which may come
  at the clock reading of the write: an entry therefore counts as expired from its expiry
  timestamp on, \<open>now >= expiresAtEpochMs\<close>. The clock reading \<open>now\<close> (\<open>Date.now()\<close>) is
  an argument.
\<close>

record 'v cache_entry =
  cached_value :: 'v
  expiresAtEpochMs :: int

type_synonym 'v cache_store = "string \<rightharpoonup> 'v cache_entry"

definition readCache :: "int \<Rightarrow> 'v cache_store \<Rightarrow> string \<Rightarrow> 'v cache_entry option \<times> 'v cache_store" where
  "readCache now store key =
     (case store key of
        None \<Rightarrow> (None, store)
      | Some e \<Rightarrow>
          if now \<ge> expiresAtEpochMs e then (None, store(key := None))
          else (Some e, store))"

definition writeCache :: "int \<Rightarrow> 'v cache_store \<Rightarrow> string \<Rightarrow> 'v \<Rightarrow> int \<Rightarrow> 'v cache_store" where
  "writeCache now store key v ttlMs =
     store(key \<mapsto> \<lparr>cached_value = v, expiresAtEpochMs = now + ttlMs\<rparr>)"

section \<open>What the adapters take from outside\<close>

text \<open>
  \<open>readStringParam\<close>, \<open>readBoolParam\<close> (\<open>common.js\<close>), \<open>normalizeCacheKey\<close>,
  \<open>readResponseText\<close> and \<open>DEFAULT_CACHE_TTL_MINUTES\<close> (\<open>web-shared.js\<close>) are
  imported by the adapters from files that are not among the sources; the SHA-256 hex
  digest is Node's (64 hexadecimal digits, so that \<open>slice(0, 16)\<close> is its first 16
  characters); \<open>trim\<close>, \<open>toLowerCase\<close> and \<open>toUpperCase\<close> are the methods of
  JavaScript's strings. The adapters are modelled over any such helpers and built-ins:
  they are the fields of \<open>deps\<close>, and \<open>'p\<close> is the type of the argument bag the readers
  inspect. \<open>readStringParamRequired\<close> is \<open>readStringParam\<close> called with
  \<open>{ required: true }\<close>, which may throw.
\<close>

record kagi_error =
  code :: "int option"
  msg :: "string option"

record kagi_reference =
  ref_title :: "string option"
  ref_snippet :: "string option"
  ref_url :: "string option"

record kagi_data =
  data_output :: "string option"
  tokens :: "int option"
  references :: "kagi_reference list option"

record kagi_meta =
  meta_id :: "string option"
  node :: "string option"
  ms :: "int option"
  api_balance :: "int option"

record kagi_response =
  meta :: "kagi_meta option"
  data :: "kagi_data option"
  error :: "kagi_error option"

text \<open>The response of \<open>fetch\<close>: \<open>raw_text\<close> is the text of its body, \<open>json\<close> is what
  \<open>await res.json()\<close> gives: the decoded object, or the exception when the body does not
  parse (or is not an object whose properties can be read).\<close>

record response =
  ok :: bool
  status :: nat
  statusText :: string
  raw_text :: string
  json :: "exn + kagi_response"

text \<open>The request handed to \<open>fetch\<close>: the endpoint, the method, the headers, the object
  that is stringified into the body, and the milliseconds given to \<open>withTimeout\<close> for
  the abort signal.\<close>

record request =
  endpoint :: string
  http_method :: string
  headers :: "(string \<times> string) list"
  body :: jobj
  signal_timeout_ms :: int

datatype fetch_outcome = Rejects exn | Resolves response

record 'p deps =
  readStringParam :: "'p \<Rightarrow> string \<Rightarrow> string option"
  readStringParamRequired :: "'p \<Rightarrow> string \<Rightarrow> exn + string"
  readBoolParam :: "'p \<Rightarrow> string \<Rightarrow> bool option"
  normalizeCacheKey :: "string \<Rightarrow> string"
  readResponseText :: "response \<Rightarrow> string"
  sha256_hex :: "string \<Rightarrow> string"
  DEFAULT_CACHE_TTL_MINUTES :: int
  trim :: "string \<Rightarrow> string"
  toLowerCase :: "string \<Rightarrow> string"
  toUpperCase :: "string \<Rightarrow> string"

text \<open>
  What one invocation meets: the value of \<open>process.env.KAGI_API_KEY\<close>, the upstream
  (\<open>fetch\<close> either rejects, as on a timeout, or resolves with a response), and the
  readings of \<open>Date.now()\<close> inside \<open>readCache\<close>, at \<open>start\<close>, when the payload is built
  and inside \<open>writeCache\<close>.
\<close>

record call_env =
  KAGI_API_KEY :: "string option"
  fetch :: "request \<Rightarrow> fetch_outcome"
  now_read :: int
  now_start :: int
  now_end :: int
  now_write :: int

text \<open>The module-level cache maps, and the requests that have been handed to \<open>fetch\<close>.\<close>

record world =
  SUMMARIZE_CACHE :: "jobj cache_store"
  FASTGPT_CACHE :: "jobj cache_store"
  fetched :: "request list"

text \<open>
  Modelled from the spec: \<open>jsonResult\<close> is imported from \<open>common.js\<close>, which is not among
  the sources; it turns the record it is given into the JSON-shaped result that is
  returned to the caller. Here it is a constructor around that record.
\<close>

datatype tool_result = jsonResult jobj

section \<open>kagi-summarize.ts\<close>

definition KAGI_SUMMARIZE_ENDPOINT :: string where
  "KAGI_SUMMARIZE_ENDPOINT = ''https://kagi.com/api/v0/summarize''"

definition DEFAULT_TIMEOUT_SECONDS :: int where
  "DEFAULT_TIMEOUT_SECONDS = 60"

definition SUMMARIZER_ENGINES :: "string list" where
  "SUMMARIZER_ENGINES = [''cecil'', ''agnes'', ''muriel'']"

definition SUMMARY_TYPES :: "string list" where
  "SUMMARY_TYPES = [''summary'', ''takeaway'']"

definition TARGET_LANGUAGES :: "string list" where
  "TARGET_LANGUAGES =
     [''BG'', ''CS'', ''DA'', ''DE'', ''EL'', ''EN'', ''ES'', ''ET'', ''FI'', ''FR'',
      ''HU'', ''ID'', ''IT'', ''JA'', ''KO'', ''LT'', ''LV'', ''NB'', ''NL'', ''PL'',
      ''PT'', ''RO'', ''RU'', ''SK'', ''SL'', ''SV'', ''TR'', ''UK'', ''ZH'', ''ZH-HANT'']"

text \<open>The settings both adapters share (\<open>tools.web.summarizer\<close> and \<open>tools.web.fastgpt\<close>),
  and the ones only the summarizer has. Every field is optional.\<close>

record kagi_config =
  enabled :: "bool option"
  apiKey :: "string option"
  timeoutSeconds :: "number option"
  cacheTtlMinutes :: "number option"
  cache :: "bool option"

record summarizer_config = kagi_config +
  engine :: "string option"
  summaryType :: "string option"
  targetLanguage :: "string option"

record web_config =
  summarizer :: "summarizer_config option"
  fastgpt :: "kagi_config option"

record tools_config =
  web :: "web_config option"

record clawdbot_config =
  tools :: "tools_config option"

record tool_options =
  config :: "clawdbot_config option"
  sandboxed :: "bool option"

definition resolveSummarizerConfig :: "clawdbot_config option \<Rightarrow> summarizer_config option" where
  "resolveSummarizerConfig cfg = Option.bind (Option.bind (Option.bind cfg tools) web) summarizer"

definition resolveSummarizerEnabled :: "summarizer_config option \<Rightarrow> bool" where
  "resolveSummarizerEnabled cfg =
     (case Option.bind cfg enabled of Some b \<Rightarrow> b | None \<Rightarrow> True)"

text \<open>The last argument is \<open>process.env.KAGI_API_KEY\<close>.\<close>

definition resolveKagiApiKey :: "'p deps \<Rightarrow> 'a kagi_config_scheme option \<Rightarrow> string option \<Rightarrow> string option" where
  "resolveKagiApiKey d cfg env_key =
     (let fromConfig = map_option (trim d) (Option.bind cfg apiKey) in
      if truthy_str fromConfig then fromConfig
      else
        let fromEnv = trim d (case env_key of None \<Rightarrow> [] | Some k \<Rightarrow> k) in
        if fromEnv \<noteq> [] then Some fromEnv else None)"

text \<open>An optional string that holds no credential: absent, or empty once trimmed.\<close>

definition blank :: "'p deps \<Rightarrow> string option \<Rightarrow> bool" where
  "blank d s = (case s of None \<Rightarrow> True | Some t \<Rightarrow> trim d t = [])"

text \<open>The environment variable holds no credential: \<open>(process.env.KAGI_API_KEY ?? "")\<close> is
  empty once trimmed.\<close>

definition env_blank :: "'p deps \<Rightarrow> string option \<Rightarrow> bool" where
  "env_blank d env_key = (trim d (case env_key of None \<Rightarrow> [] | Some k \<Rightarrow> k) = [])"

definition resolveTimeoutSeconds :: "summarizer_config option \<Rightarrow> int" where
  "resolveTimeoutSeconds cfg =
     (case Option.bind cfg timeoutSeconds of
        Some (Num v) \<Rightarrow> if v > 0 then v else DEFAULT_TIMEOUT_SECONDS
      | _ \<Rightarrow> DEFAULT_TIMEOUT_SECONDS)"

definition resolveCacheTtlMs :: "'p deps \<Rightarrow> 'a kagi_config_scheme option \<Rightarrow> int" where
  "resolveCacheTtlMs d cfg =
     (case Option.bind cfg cacheTtlMinutes of
        Some (Num minutes) \<Rightarrow>
          if minutes \<ge> 0 then minutes * 60 * 1000
          else DEFAULT_CACHE_TTL_MINUTES d * 60 * 1000
      | _ \<Rightarrow> DEFAULT_CACHE_TTL_MINUTES d * 60 * 1000)"

definition resolveDefaultCache :: "'a kagi_config_scheme option \<Rightarrow> bool" where
  "resolveDefaultCache cfg =
     (case Option.bind cfg cache of Some b \<Rightarrow> b | None \<Rightarrow> True)"

definition resolveDefaultEngine :: "summarizer_config option \<Rightarrow> string" where
  "resolveDefaultEngine cfg =
     (case Option.bind cfg engine of
        Some e \<Rightarrow> if e \<noteq> [] \<and> e \<in> set SUMMARIZER_ENGINES then e else ''cecil''
      | None \<Rightarrow> ''cecil'')"

definition resolveDefaultSummaryType :: "summarizer_config option \<Rightarrow> string" where
  "resolveDefaultSummaryType cfg =
     (case Option.bind cfg summaryType of
        Some t \<Rightarrow> if t \<noteq> [] \<and> t \<in> set SUMMARY_TYPES then t else ''summary''
      | None \<Rightarrow> ''summary'')"

definition resolveDefaultTargetLanguage :: "'p deps \<Rightarrow> summarizer_config option \<Rightarrow> string option" where
  "resolveDefaultTargetLanguage d cfg =
     (case map_option (\<lambda>l. toUpperCase d (trim d l)) (Option.bind cfg targetLanguage) of
        Some lang \<Rightarrow> if lang \<noteq> [] \<and> lang \<in> set TARGET_LANGUAGES then Some lang else None
      | None \<Rightarrow> None)"

definition validateEngine :: "'p deps \<Rightarrow> string option \<Rightarrow> string option" where
  "validateEngine d e =
     (if \<not> truthy_str e then None
      else
        let normalized = toLowerCase d (trim d (the e)) in
        if normalized \<in> set SUMMARIZER_ENGINES then Some normalized else None)"

definition validateSummaryType :: "'p deps \<Rightarrow> string option \<Rightarrow> string option" where
  "validateSummaryType d t =
     (if \<not> truthy_str t then None
      else
        let normalized = toLowerCase d (trim d (the t)) in
        if normalized \<in> set SUMMARY_TYPES then Some normalized else None)"

definition validateTargetLanguage :: "'p deps \<Rightarrow> string option \<Rightarrow> string option" where
  "validateTargetLanguage d lang =
     (if \<not> truthy_str lang then None
      else
        let normalized = toUpperCase d (trim d (the lang)) in
        if normalized \<in> set TARGET_LANGUAGES then Some normalized
        else if normalized = ''ZH-HANT'' \<or> normalized = ''ZHHANT'' then Some ''ZH-HANT''
        else None)"

record summarize_params =
  p_url :: "string option"
  p_text :: "string option"
  p_engine :: string
  p_summaryType :: string
  p_targetLanguage :: "string option"
  p_apiKey :: string
  p_cache :: bool
  p_timeoutSeconds :: int
  p_cacheTtlMs :: int

text \<open>The part of the key that stands for the source: the URL itself, or the first 16 hex
  digits of the SHA-256 digest of the text.\<close>

definition summarizeSourceKey :: "'p deps \<Rightarrow> summarize_params \<Rightarrow> string" where
  "summarizeSourceKey d params =
     (if truthy_str (p_url params) then the (p_url params)
      else take 16 (sha256_hex d (str_or (p_text params) [])))"

text \<open>The template literal that is handed to \<open>normalizeCacheKey\<close>.\<close>

definition summarizeRawKey :: "'p deps \<Rightarrow> summarize_params \<Rightarrow> string" where
  "summarizeRawKey d params =
     ''kagi-summarize:'' @ summarizeSourceKey d params @ '':'' @ p_engine params @ '':''
       @ p_summaryType params @ '':'' @ str_or (p_targetLanguage params) ''auto'' @ '':''
       @ show_bool (p_cache params)"

definition summarizeCacheKey :: "'p deps \<Rightarrow> summarize_params \<Rightarrow> string" where
  "summarizeCacheKey d params = normalizeCacheKey d (summarizeRawKey d params)"

definition summarizeBody :: "summarize_params \<Rightarrow> jobj" where
  "summarizeBody params =
     [(''engine'', JStr (p_engine params)),
      (''summary_type'', JStr (p_summaryType params)),
      (''cache'', JBool (p_cache params))]
     @ (if truthy_str (p_url params) then [(''url'', JStr (the (p_url params)))]
        else if truthy_str (p_text params) then [(''text'', JStr (the (p_text params)))]
        else [])
     @ (if truthy_str (p_targetLanguage params)
        then [(''target_language'', JStr (the (p_targetLanguage params)))] else [])"

definition summarizeRequest :: "summarize_params \<Rightarrow> request" where
  "summarizeRequest params =
     \<lparr>endpoint = KAGI_SUMMARIZE_ENDPOINT,
      http_method = ''POST'',
      headers = [(''Authorization'', ''Bot '' @ p_apiKey params),
                 (''Content-Type'', ''application/json''),
                 (''Accept'', ''application/json'')],
      body = summarizeBody params,
      signal_timeout_ms = p_timeoutSeconds params * 1000\<rparr>"

text \<open>\<open>data.data?.output ?? ""\<close>\<close>

definition upstream_output :: "kagi_response \<Rightarrow> string" where
  "upstream_output r = (case Option.bind (data r) data_output of None \<Rightarrow> [] | Some s \<Rightarrow> s)"

definition summarizePayload :: "summarize_params \<Rightarrow> call_env \<Rightarrow> kagi_response \<Rightarrow> jobj" where
  "summarizePayload params env r =
     [(''provider'', JStr ''kagi-summarizer''),
      (''source'', JStr (str_or (p_url params) ''(text input)'')),
      (''engine'', JStr (p_engine params)),
      (''summaryType'', JStr (p_summaryType params)),
      (''targetLanguage'', JStr (str_or (p_targetLanguage params) ''auto'')),
      (''tookMs'', JNum (now_end env - now_start env)),
      (''summary'', JStr (upstream_output r)),
      (''tokens'', jnum_opt (Option.bind (data r) tokens)),
      (''apiBalance'', jnum_opt (Option.bind (meta r) api_balance))]"

text \<open>\<open>runSummarize\<close>: the result is the payload, or the exception that leaves the function;
  the world carries the cache map and the requests made.\<close>

definition runSummarize :: "'p deps \<Rightarrow> call_env \<Rightarrow> summarize_params \<Rightarrow> world \<Rightarrow> (exn + jobj) \<times> world" where
  "runSummarize d env params w =
     (let cacheKey = summarizeCacheKey d params;
          (cached, store) =
            (if p_cache params then readCache (now_read env) (SUMMARIZE_CACHE w) cacheKey
             else (None, SUMMARIZE_CACHE w));
          w1 = w\<lparr>SUMMARIZE_CACHE := store\<rparr>
      in case cached of
           Some e \<Rightarrow> (Inr (AList.update ''cached'' (JBool True) (cached_value e)), w1)
         | None \<Rightarrow>
             (let req = summarizeRequest params;
                  w2 = w1\<lparr>fetched := fetched w1 @ [req]\<rparr>
              in case fetch env req of
                   Rejects x \<Rightarrow> (Inl x, w2)
                 | Resolves res \<Rightarrow>
                     if \<not> ok res then
                       (let detail = readResponseText d res in
                        (Inl (Error (''Kagi Summarizer API error ('' @ show_nat (status res) @ ''): ''
                                @ (if detail = [] then statusText res else detail))), w2))
                     else
                       (case json res of
                          Inl x \<Rightarrow> (Inl x, w2)
                        | Inr r \<Rightarrow>
                            (case error r of
                               Some err \<Rightarrow>
                                 (Inl (Error (''Kagi Summarizer API error: ''
                                         @ str_or (msg err) ''Unknown error'')), w2)
                             | None \<Rightarrow>
                                 (let payload = summarizePayload params env r in
                                  (Inr payload,
                                   if p_cache params
                                   then w2\<lparr>SUMMARIZE_CACHE :=
                                          writeCache (now_write env) (SUMMARIZE_CACHE w2) cacheKey
                                            payload (p_cacheTtlMs params)\<rparr>
                                   else w2))))))"

text \<open>The tool object: its label, name and description, and the configuration its
  \<open>execute\<close> closure has captured. The parameter schema, which only describes the
  arguments, and the call identifier, which \<open>execute\<close> ignores, are left out.\<close>

record 'c agent_tool =
  label :: string
  name :: string
  description :: string
  captured_config :: "'c option"

definition summarize_missing_key :: jobj where
  "summarize_missing_key =
     [(''error'', JStr ''missing_kagi_api_key''),
      (''message'', JStr ''kagi_summarize needs an API key. Set KAGI_API_KEY in the Gateway environment, or configure tools.web.summarizer.apiKey.''),
      (''docs'', JStr ''https://help.kagi.com/kagi/api/summarizer.html'')]"

definition missing_input :: jobj where
  "missing_input =
     [(''error'', JStr ''missing_input''),
      (''message'', JStr (''Either '' @ [CHR 0x27] @ ''url'' @ [CHR 0x27] @ '' or '' @ [CHR 0x27]
         @ ''text'' @ [CHR 0x27] @ '' parameter is required.'')),
      (''docs'', JStr ''https://help.kagi.com/kagi/api/summarizer.html'')]"

definition conflicting_input :: jobj where
  "conflicting_input =
     [(''error'', JStr ''conflicting_input''),
      (''message'', JStr (''Parameters '' @ [CHR 0x27] @ ''url'' @ [CHR 0x27] @ '' and '' @ [CHR 0x27]
         @ ''text'' @ [CHR 0x27] @ '' are mutually exclusive. Provide only one.'')),
      (''docs'', JStr ''https://help.kagi.com/kagi/api/summarizer.html'')]"

text \<open>The parameters \<open>execute\<close> hands to \<open>runSummarize\<close> once the key is resolved and the
  input is valid.\<close>

definition summarizeParams :: "'p deps \<Rightarrow> summarizer_config option \<Rightarrow> string \<Rightarrow> 'p \<Rightarrow> summarize_params" where
  "summarizeParams d cfg resolvedApiKey args =
     \<lparr>p_url = readStringParam d args ''url'',
      p_text = readStringParam d args ''text'',
      p_engine =
        (case validateEngine d (readStringParam d args ''engine'') of
           Some e \<Rightarrow> e | None \<Rightarrow> resolveDefaultEngine cfg),
      p_summaryType =
        (case validateSummaryType d (readStringParam d args ''summary_type'') of
           Some t \<Rightarrow> t | None \<Rightarrow> resolveDefaultSummaryType cfg),
      p_targetLanguage =
        (case validateTargetLanguage d (readStringParam d args ''target_language'') of
           Some l \<Rightarrow> Some l | None \<Rightarrow> resolveDefaultTargetLanguage d cfg),
      p_apiKey = resolvedApiKey,
      p_cache =
        (case readBoolParam d args ''cache'' of
           Some b \<Rightarrow> b | None \<Rightarrow> resolveDefaultCache cfg),
      p_timeoutSeconds = resolveTimeoutSeconds cfg,
      p_cacheTtlMs = resolveCacheTtlMs d cfg\<rparr>"

text \<open>\<open>execute\<close> of the summarizer tool, over the configuration the closure captured.\<close>

definition summarize_execute ::
  "'p deps \<Rightarrow> summarizer_config option \<Rightarrow> call_env \<Rightarrow> 'p \<Rightarrow> world \<Rightarrow> (exn + tool_result) \<times> world" where
  "summarize_execute d cfg env args w =
     (case resolveKagiApiKey d cfg (KAGI_API_KEY env) of
        None \<Rightarrow> (Inr (jsonResult summarize_missing_key), w)
      | Some resolvedApiKey \<Rightarrow>
          (let url = readStringParam d args ''url'';
               text = readStringParam d args ''text''
           in if \<not> truthy_str url \<and> \<not> truthy_str text then (Inr (jsonResult missing_input), w)
              else if truthy_str url \<and> truthy_str text then (Inr (jsonResult conflicting_input), w)
              else
                (case runSummarize d env (summarizeParams d cfg resolvedApiKey args) w of
                   (Inl x, w') \<Rightarrow> (Inl x, w')
                 | (Inr result, w') \<Rightarrow> (Inr (jsonResult result), w'))))"

text \<open>The last argument is \<open>process.env.KAGI_API_KEY\<close> when the tool is constructed.\<close>

definition createKagiSummarizeTool ::
  "'p deps \<Rightarrow> tool_options option \<Rightarrow> string option \<Rightarrow> summarizer_config agent_tool option" where
  "createKagiSummarizeTool d options env_key =
     (let cfg = resolveSummarizerConfig (Option.bind options config) in
      if \<not> resolveSummarizerEnabled cfg then None
      else if resolveKagiApiKey d cfg env_key = None \<and> Option.bind options sandboxed \<noteq> Some True
      then None
      else Some
        \<lparr>label = ''Kagi Summarizer'',
         name = ''kagi_summarize'',
         description = ''Summarize content using Kagi Universal Summarizer. Supports web pages, PDFs, Word/PowerPoint docs, audio files, YouTube videos, and plain text. Choose between prose summary or bullet-point takeaways. Can translate summaries to 30+ languages.'',
         captured_config = cfg\<rparr>)"

section \<open>kagi-fastgpt.ts\<close>

text \<open>
  \<open>resolveKagiApiKey\<close>, \<open>resolveCacheTtlMs\<close> and \<open>resolveDefaultCache\<close> are written
  again in this file with the bodies they have in \<open>kagi-summarize.ts\<close>; the definitions
  above, which take either configuration record, stand for both copies.
\<close>

definition KAGI_FASTGPT_ENDPOINT :: string where
  "KAGI_FASTGPT_ENDPOINT = ''https://kagi.com/api/v0/fastgpt''"

definition FASTGPT_DEFAULT_TIMEOUT_SECONDS :: int where
  "FASTGPT_DEFAULT_TIMEOUT_SECONDS = 30"

definition resolveFastGPTConfig :: "clawdbot_config option \<Rightarrow> kagi_config option" where
  "resolveFastGPTConfig cfg = Option.bind (Option.bind (Option.bind cfg tools) web) fastgpt"

definition resolveFastGPTEnabled :: "kagi_config option \<Rightarrow> bool" where
  "resolveFastGPTEnabled cfg =
     (case Option.bind cfg enabled of Some b \<Rightarrow> b | None \<Rightarrow> True)"

definition resolveFastGPTTimeoutSeconds :: "kagi_config option \<Rightarrow> int" where
  "resolveFastGPTTimeoutSeconds cfg =
     (case Option.bind cfg timeoutSeconds of
        Some (Num v) \<Rightarrow> if v > 0 then v else FASTGPT_DEFAULT_TIMEOUT_SECONDS
      | _ \<Rightarrow> FASTGPT_DEFAULT_TIMEOUT_SECONDS)"

record fastgpt_params =
  q_query :: string
  q_apiKey :: string
  q_cache :: bool
  q_timeoutSeconds :: int
  q_cacheTtlMs :: int

definition fastgptRawKey :: "fastgpt_params \<Rightarrow> string" where
  "fastgptRawKey params = ''kagi-fastgpt:'' @ q_query params @ '':'' @ show_bool (q_cache params)"

definition fastgptCacheKey :: "'p deps \<Rightarrow> fastgpt_params \<Rightarrow> string" where
  "fastgptCacheKey d params = normalizeCacheKey d (fastgptRawKey params)"

definition fastgptRequest :: "fastgpt_params \<Rightarrow> request" where
  "fastgptRequest params =
     \<lparr>endpoint = KAGI_FASTGPT_ENDPOINT,
      http_method = ''POST'',
      headers = [(''Authorization'', ''Bot '' @ q_apiKey params),
                 (''Content-Type'', ''application/json''),
                 (''Accept'', ''application/json'')],
      body = [(''query'', JStr (q_query params)),
              (''cache'', JBool (q_cache params)),
              (''web_search'', JBool True)],
      signal_timeout_ms = q_timeoutSeconds params * 1000\<rparr>"

definition fastgptReference :: "kagi_reference \<Rightarrow> jval" where
  "fastgptReference r =
     JObj [(''title'', JStr (case ref_title r of None \<Rightarrow> [] | Some t \<Rightarrow> t)),
           (''url'', JStr (case ref_url r of None \<Rightarrow> [] | Some u \<Rightarrow> u)),
           (''snippet'', JStr (case ref_snippet r of None \<Rightarrow> [] | Some t \<Rightarrow> t))]"

definition fastgptPayload :: "fastgpt_params \<Rightarrow> call_env \<Rightarrow> kagi_response \<Rightarrow> jobj" where
  "fastgptPayload params env r =
     [(''query'', JStr (q_query params)),
      (''provider'', JStr ''kagi-fastgpt''),
      (''tookMs'', JNum (now_end env - now_start env)),
      (''answer'', JStr (upstream_output r)),
      (''tokens'', jnum_opt (Option.bind (data r) tokens)),
      (''references'',
         JArr (map fastgptReference
                 (case Option.bind (data r) references of None \<Rightarrow> [] | Some rs \<Rightarrow> rs))),
      (''apiBalance'', jnum_opt (Option.bind (meta r) api_balance))]"

definition runFastGPT :: "'p deps \<Rightarrow> call_env \<Rightarrow> fastgpt_params \<Rightarrow> world \<Rightarrow> (exn + jobj) \<times> world" where
  "runFastGPT d env params w =
     (let cacheKey = fastgptCacheKey d params;
          (cached, store) =
            (if q_cache params then readCache (now_read env) (FASTGPT_CACHE w) cacheKey
             else (None, FASTGPT_CACHE w));
          w1 = w\<lparr>FASTGPT_CACHE := store\<rparr>
      in case cached of
           Some e \<Rightarrow> (Inr (AList.update ''cached'' (JBool True) (cached_value e)), w1)
         | None \<Rightarrow>
             (let req = fastgptRequest params;
                  w2 = w1\<lparr>fetched := fetched w1 @ [req]\<rparr>
              in case fetch env req of
                   Rejects x \<Rightarrow> (Inl x, w2)
                 | Resolves res \<Rightarrow>
                     if \<not> ok res then
                       (let detail = readResponseText d res in
                        (Inl (Error (''Kagi FastGPT API error ('' @ show_nat (status res) @ ''): ''
                                @ (if detail = [] then statusText res else detail))), w2))
                     else
                       (case json res of
                          Inl x \<Rightarrow> (Inl x, w2)
                        | Inr r \<Rightarrow>
                            (case error r of
                               Some err \<Rightarrow>
                                 (Inl (Error (''Kagi FastGPT API error: ''
                                         @ str_or (msg err) ''Unknown error'')), w2)
                             | None \<Rightarrow>
                                 (let payload = fastgptPayload params env r in
                                  (Inr payload,
                                   if q_cache params
                                   then w2\<lparr>FASTGPT_CACHE :=
                                          writeCache (now_write env) (FASTGPT_CACHE w2) cacheKey
                                            payload (q_cacheTtlMs params)\<rparr>
                                   else w2))))))"

definition fastgpt_missing_key :: jobj where
  "fastgpt_missing_key =
     [(''error'', JStr ''missing_kagi_api_key''),
      (''message'', JStr ''kagi_fastgpt needs an API key. Set KAGI_API_KEY in the Gateway environment, or configure tools.web.fastgpt.apiKey.''),
      (''docs'', JStr ''https://help.kagi.com/kagi/api/fastgpt.html'')]"

definition fastgptParams :: "'p deps \<Rightarrow> kagi_config option \<Rightarrow> string \<Rightarrow> string \<Rightarrow> 'p \<Rightarrow> fastgpt_params" where
  "fastgptParams d cfg resolvedApiKey query args =
     \<lparr>q_query = query,
      q_apiKey = resolvedApiKey,
      q_cache =
        (case readBoolParam d args ''cache'' of
           Some b \<Rightarrow> b | None \<Rightarrow> resolveDefaultCache cfg),
      q_timeoutSeconds = resolveFastGPTTimeoutSeconds cfg,
      q_cacheTtlMs = resolveCacheTtlMs d cfg\<rparr>"

definition fastgpt_execute ::
  "'p deps \<Rightarrow> kagi_config option \<Rightarrow> call_env \<Rightarrow> 'p \<Rightarrow> world \<Rightarrow> (exn + tool_result) \<times> world" where
  "fastgpt_execute d cfg env args w =
     (case resolveKagiApiKey d cfg (KAGI_API_KEY env) of
        None \<Rightarrow> (Inr (jsonResult fastgpt_missing_key), w)
      | Some resolvedApiKey \<Rightarrow>
          (case readStringParamRequired d args ''query'' of
             Inl x \<Rightarrow> (Inl x, w)
           | Inr query \<Rightarrow>
               (case runFastGPT d env (fastgptParams d cfg resolvedApiKey query args) w of
                  (Inl x, w') \<Rightarrow> (Inl x, w')
                | (Inr result, w') \<Rightarrow> (Inr (jsonResult result), w'))))"

definition createKagiFastGPTTool ::
  "'p deps \<Rightarrow> tool_options option \<Rightarrow> string option \<Rightarrow> kagi_config agent_tool option" where
  "createKagiFastGPTTool d options env_key =
     (let cfg = resolveFastGPTConfig (Option.bind options config) in
      if \<not> resolveFastGPTEnabled cfg then None
      else if resolveKagiApiKey d cfg env_key = None \<and> Option.bind options sandboxed \<noteq> Some True
      then None
      else Some
        \<lparr>label = ''Kagi FastGPT'',
         name = ''kagi_fastgpt'',
         description = ''Answer questions using Kagi FastGPT - an AI that searches the web and provides synthesized answers with references. Best for factual questions requiring up-to-date information. Returns an answer with source citations.'',
         captured_config = cfg\<rparr>)"

section \<open>The Postmark webhook\<close>

text \<open>
  The handler reads properties of whatever JSON value the body parses to, so the value is
  a \<open>jval\<close>; an object is the list of its properties, one per key. \<open>property\<close> is a
  property read on a value that is neither \<open>null\<close> nor \<open>undefined\<close>, for the names the
  handler reads (\<open>Subject\<close>, \<open>From\<close>, \<open>FromFull\<close>, \<open>Name\<close>, \<open>StrippedTextReply\<close>,
  \<open>TextBody\<close>, \<open>MessageID\<close>), none of which a string, a number, a boolean or an array has.
\<close>

definition bind_exn :: "exn + 'a \<Rightarrow> ('a \<Rightarrow> exn + 'b) \<Rightarrow> exn + 'b" where
  "bind_exn m f = (case m of Inl x \<Rightarrow> Inl x | Inr a \<Rightarrow> f a)"

definition nullish :: "jval \<Rightarrow> bool" where
  "nullish v = (v = JNull \<or> v = JUndefined)"

definition property :: "jval \<Rightarrow> string \<Rightarrow> jval" where
  "property v k =
     (case v of
        JObj kvs \<Rightarrow> (case map_of kvs k of None \<Rightarrow> JUndefined | Some x \<Rightarrow> x)
      | _ \<Rightarrow> JUndefined)"

text \<open>\<open>v.k\<close>: a \<open>TypeError\<close> on \<open>null\<close> and \<open>undefined\<close>.\<close>

definition get_prop :: "jval \<Rightarrow> string \<Rightarrow> exn + jval" where
  "get_prop v k =
     (if nullish v
      then Inl (TypeError (''Cannot read properties of ''
                  @ (if v = JNull then ''null'' else ''undefined'')
                  @ '' (reading '' @ [CHR 0x27] @ k @ [CHR 0x27] @ '')''))
      else Inr (property v k))"

text \<open>\<open>v?.k\<close>\<close>

definition opt_prop :: "jval \<Rightarrow> string \<Rightarrow> jval" where
  "opt_prop v k = (if nullish v then JUndefined else property v k)"

fun truthy :: "jval \<Rightarrow> bool" where
  "truthy JUndefined = False"
| "truthy JNull = False"
| "truthy (JBool b) = b"
| "truthy (JNum n) = (n \<noteq> 0)"
| "truthy (JStr s) = (s \<noteq> [])"
| "truthy (JArr xs) = True"
| "truthy (JObj kvs) = True"

definition show_int :: "int \<Rightarrow> string" where
  "show_int i = (if i < 0 then ''-'' @ show_nat (nat (- i)) else show_nat (nat i))"

text \<open>
  The string a template literal puts in for a value. A parsed object that has a property
  of its own called \<open>toString\<close> cannot be converted (the property is not callable), which
  is a \<open>TypeError\<close>; any other object is \<open>[object Object]\<close>; an array is its elements
  joined by commas, \<open>null\<close> and \<open>undefined\<close> elements giving the empty string.
\<close>

fun to_str :: "jval \<Rightarrow> exn + string"
  and join_elems :: "jval list \<Rightarrow> exn + string" where
  "to_str JUndefined = Inr ''undefined''"
| "to_str JNull = Inr ''null''"
| "to_str (JBool b) = Inr (show_bool b)"
| "to_str (JNum n) = Inr (show_int n)"
| "to_str (JStr s) = Inr s"
| "to_str (JArr xs) = join_elems xs"
| "to_str (JObj kvs) =
     (if ''toString'' \<in> fst ` set kvs
      then Inl (TypeError ''Cannot convert object to primitive value'')
      else Inr ''[object Object]'')"
| "join_elems [] = Inr []"
| "join_elems (x # xs) =
     (case (if nullish x then Inr [] else to_str x) of
        Inl e \<Rightarrow> Inl e
      | Inr s \<Rightarrow>
          if xs = [] then Inr s
          else (case join_elems xs of Inl e \<Rightarrow> Inl e | Inr r \<Rightarrow> Inr (s @ '','' @ r)))"

text \<open>\<open>String(err)\<close>\<close>

fun exn_to_string :: "exn \<Rightarrow> string" where
  "exn_to_string (Error m) = ''Error: '' @ m"
| "exn_to_string (TypeError m) = ''TypeError: '' @ m"
| "exn_to_string (SyntaxError m) = ''SyntaxError: '' @ m"
| "exn_to_string (TimeoutError m) = ''TimeoutError: '' @ m"

text \<open>The two emoji of the source's literals, in UTF-8: U+1F4E7 and U+1F50D.\<close>

definition emoji_email :: string where
  "emoji_email = [CHR 0xF0, CHR 0x9F, CHR 0x93, CHR 0xA7]"

definition emoji_magnifier :: string where
  "emoji_magnifier = [CHR 0xF0, CHR 0x9F, CHR 0x94, CHR 0x8D]"

definition newline :: string where
  "newline = [CHR 0x0A]"

text \<open>\<open>lines.join("\n")\<close>\<close>

fun join_lines :: "string list \<Rightarrow> string" where
  "join_lines [] = []"
| "join_lines [l] = l"
| "join_lines (l # ls) = l @ newline @ join_lines ls"

datatype log_level = Info | ErrorLevel

text \<open>The response object: \<open>ended\<close> is the value whose JSON text \<open>res.end\<close> was given,
  \<open>None\<close> while the response has not been ended.\<close>

record server_response =
  statusCode :: nat
  res_headers :: "(string \<times> string) list"
  ended :: "jval option"

text \<open>The inbound request: the chunks of its \<open>data\<close> events, and the error of its
  \<open>error\<close> event if the stream fails instead of ending.\<close>

record http_request =
  req_method :: "string option"
  req_url :: "string option"
  chunks :: "string list"
  stream_error :: "exn option"

text \<open>
  The built-ins the handler calls: \<open>URL_pathname u\<close> is
  \<open>new URL(u, "http://localhost").pathname\<close> (the constructor throws on an invalid URL),
  \<open>JSON_parse\<close> is \<open>JSON.parse\<close>, \<open>JSON_stringify_pretty v\<close> is
  \<open>JSON.stringify(v, null, 2)\<close>, \<open>String_length s\<close> is \<open>s.length\<close> and
  \<open>String_substring s a b\<close> is \<open>s.substring(a, b)\<close>, both of which count UTF-16 code
  units.
\<close>

record webhook_deps =
  URL_pathname :: "string \<Rightarrow> exn + string"
  JSON_parse :: "string \<Rightarrow> exn + jval"
  JSON_stringify_pretty :: "jval \<Rightarrow> string"
  String_length :: "string \<Rightarrow> nat"
  String_substring :: "string \<Rightarrow> nat \<Rightarrow> nat \<Rightarrow> string"

text \<open>What the handler acts on: the response, the logger (\<open>opts.log\<close>), and the messages
  handed to the sink \<open>opts.sendToTelegram\<close>.\<close>

record handler_state =
  res :: server_response
  log_lines :: "(log_level \<times> string) list"
  telegram :: "string list"

definition log_line :: "log_level \<Rightarrow> string \<Rightarrow> handler_state \<Rightarrow> handler_state" where
  "log_line lvl l st = st\<lparr>log_lines := log_lines st @ [(lvl, l)]\<rparr>"

definition readJsonBody :: "webhook_deps \<Rightarrow> http_request \<Rightarrow> exn + jval" where
  "readJsonBody wd req =
     (case stream_error req of
        Some x \<Rightarrow> Inl x
      | None \<Rightarrow> JSON_parse wd (concat (chunks req)))"

definition sendJson :: "handler_state \<Rightarrow> nat \<Rightarrow> jval \<Rightarrow> handler_state" where
  "sendJson st st_code b =
     st\<lparr>res := (res st)\<lparr>statusCode := st_code,
                         res_headers := AList.update ''Content-Type''
                           ''application/json; charset=utf-8'' (res_headers (res st)),
                         ended := Some b\<rparr>\<rparr>"

text \<open>\<open>a || b\<close>\<close>

definition js_or :: "jval \<Rightarrow> jval \<Rightarrow> jval" where
  "js_or a b = (if truthy a then a else b)"

text \<open>\<open>email.StrippedTextReply || email.TextBody || ""\<close>\<close>

definition textBodyOf :: "jval \<Rightarrow> exn + jval" where
  "textBodyOf email =
     bind_exn (get_prop email ''StrippedTextReply'') (\<lambda>stripped.
       if truthy stripped then Inr stripped
       else bind_exn (get_prop email ''TextBody'') (\<lambda>full. Inr (js_or full (JStr []))))"

text \<open>\<open>textBody.substring(0, 1000) + (textBody.length > 1000 ? "..." : "")\<close>: only a
  string has \<open>substring\<close>.\<close>

definition boundedText :: "webhook_deps \<Rightarrow> jval \<Rightarrow> exn + string" where
  "boundedText wd textBody =
     (case textBody of
        JStr s \<Rightarrow>
          Inr (String_substring wd s 0 1000
                 @ (if String_length wd s > 1000 then ''...'' else []))
      | _ \<Rightarrow> Inl (TypeError ''textBody.substring is not a function''))"

text \<open>The \<open>message\<close> the handler builds from the email and its text.\<close>

definition formatMessage :: "webhook_deps \<Rightarrow> jval \<Rightarrow> jval \<Rightarrow> exn + string" where
  "formatMessage wd email textBody =
     bind_exn (get_prop email ''FromFull'') (\<lambda>fromFull.
     bind_exn (if truthy (opt_prop fromFull ''Name'') then Inr (opt_prop fromFull ''Name'')
               else get_prop email ''From'') (\<lambda>sender.
     bind_exn (to_str sender) (\<lambda>senderText.
     bind_exn (get_prop email ''Subject'') (\<lambda>subject.
     bind_exn (to_str subject) (\<lambda>subjectText.
     bind_exn (boundedText wd textBody) (\<lambda>shown.
       Inr (join_lines
              [emoji_email @ '' **New Email**'',
               [],
               ''**From:** '' @ senderText,
               ''**Subject:** '' @ subjectText,
               [],
               shown])))))))"

text \<open>The line logged when the body has been parsed.\<close>

definition receivedLine :: "jval \<Rightarrow> exn + string" where
  "receivedLine email =
     bind_exn (get_prop email ''Subject'') (\<lambda>subject.
     bind_exn (to_str subject) (\<lambda>subjectText.
     bind_exn (get_prop email ''From'') (\<lambda>sender.
     bind_exn (to_str sender) (\<lambda>senderText.
       Inr (emoji_email @ '' Postmark email received: '' @ subjectText @ '' from ''
              @ senderText)))))"

text \<open>\<open>textBody.length\<close> in a template literal.\<close>

definition lengthText :: "webhook_deps \<Rightarrow> jval \<Rightarrow> string" where
  "lengthText wd v =
     (case v of
        JStr s \<Rightarrow> show_nat (String_length wd s)
      | JArr xs \<Rightarrow> show_nat (length xs)
      | _ \<Rightarrow> ''undefined'')"

text \<open>The body of the \<open>try\<close>: the exception that leaves it, if any, and the state then.
  The message is built and then used by nothing.\<close>

definition tryBlock :: "webhook_deps \<Rightarrow> http_request \<Rightarrow> handler_state \<Rightarrow> (exn + unit) \<times> handler_state" where
  "tryBlock wd req st =
     (case readJsonBody wd req of
        Inl x \<Rightarrow> (Inl x, st)
      | Inr email \<Rightarrow>
          (case receivedLine email of
             Inl x \<Rightarrow> (Inl x, st)
           | Inr l \<Rightarrow>
               (let st1 = log_line Info l st in
                case bind_exn (textBodyOf email) (\<lambda>textBody.
                       bind_exn (formatMessage wd email textBody) (\<lambda>message. Inr textBody)) of
                  Inl x \<Rightarrow> (Inl x, st1)
                | Inr textBody \<Rightarrow>
                    (let st2 = log_line Info
                                 (''Email content ('' @ lengthText wd textBody @ '' chars)'') st1
                     in case get_prop email ''MessageID'' of
                          Inl x \<Rightarrow> (Inl x, st2)
                        | Inr messageId \<Rightarrow>
                            (Inr (),
                             sendJson st2 200
                               (JObj [(''ok'', JBool True), (''messageId'', messageId)]))))))"

text \<open>The handler \<open>createPostmarkWebhookHandler\<close> returns: whether it claims the request, or
  the exception that leaves it.\<close>

definition createPostmarkWebhookHandler ::
  "webhook_deps \<Rightarrow> http_request \<Rightarrow> handler_state \<Rightarrow> (exn + bool) \<times> handler_state" where
  "createPostmarkWebhookHandler wd req st =
     (case URL_pathname wd (case req_url req of None \<Rightarrow> ''/'' | Some u \<Rightarrow> u) of
        Inl x \<Rightarrow> (Inl x, st)
      | Inr pathname \<Rightarrow>
          (let st1 = log_line Info
                       (''Postmark handler called: ''
                          @ (case req_method req of None \<Rightarrow> ''undefined'' | Some m \<Rightarrow> m)
                          @ '' '' @ pathname) st
           in if pathname \<noteq> ''/webhooks/postmark'' then (Inr False, st1)
              else if req_method req \<noteq> Some ''POST''
              then (Inr True, sendJson st1 405 (JObj [(''error'', JStr ''Method not allowed'')]))
              else
                (case tryBlock wd req st1 of
                   (Inr u, st2) \<Rightarrow> (Inr True, st2)
                 | (Inl err, st2) \<Rightarrow>
                     (Inr True,
                      sendJson
                        (log_line ErrorLevel (''Postmark webhook error: '' @ exn_to_string err) st2)
                        400 (JObj [(''error'', JStr ''Invalid payload'')])))))"

text \<open>The inbound-email transform (\<open>postmark\<close> transform module).\<close>

definition transform :: "webhook_deps \<Rightarrow> jval \<Rightarrow> jobj" where
  "transform wd payload =
     [(''message'',
       JStr (emoji_magnifier @ '' **DEBUG: Raw Postmark Payload**'' @ newline @ newline
             @ ''```json'' @ newline @ JSON_stringify_pretty wd payload @ newline @ ''```''))]"

section \<open>Concrete helpers and inputs for the examples\<close>

text \<open>
  The string methods on ASCII text, which is all the examples use: \<open>trim\<close> strips tab,
  line feed, vertical tab, form feed, carriage return and space from both ends, and the
  case mappings exchange \<open>A\<close> to \<open>Z\<close> with \<open>a\<close> to \<open>z\<close>.
\<close>

definition is_space :: "char \<Rightarrow> bool" where
  "is_space c = (c \<in> set [CHR 0x09, CHR 0x0A, CHR 0x0B, CHR 0x0C, CHR 0x0D, CHR '' ''])"

definition ascii_trim :: "string \<Rightarrow> string" where
  "ascii_trim s = rev (dropWhile is_space (rev (dropWhile is_space s)))"

definition upper_letters :: string where
  "upper_letters = ''ABCDEFGHIJKLMNOPQRSTUVWXYZ''"

definition lower_letters :: string where
  "lower_letters = ''abcdefghijklmnopqrstuvwxyz''"

definition lower_char :: "char \<Rightarrow> char" where
  "lower_char c = (case map_of (zip upper_letters lower_letters) c of None \<Rightarrow> c | Some d \<Rightarrow> d)"

definition upper_char :: "char \<Rightarrow> char" where
  "upper_char c = (case map_of (zip lower_letters upper_letters) c of None \<Rightarrow> c | Some d \<Rightarrow> d)"

definition ascii_toLowerCase :: "string \<Rightarrow> string" where
  "ascii_toLowerCase s = map lower_char s"

definition ascii_toUpperCase :: "string \<Rightarrow> string" where
  "ascii_toUpperCase s = map upper_char s"

text \<open>
  An argument bag as a map from parameter names to JSON values, with readers that return
  a value of the expected type and \<open>undefined\<close> otherwise; a key normaliser that trims
  and lower-cases; the SHA-256 hex digests of the texts \<open>a\<close>, \<open>b\<close> and the empty text, the last
  standing in for the digest of every other text.
\<close>

definition example_digest :: "string \<Rightarrow> string" where
  "example_digest s =
     (if s = ''a'' then ''ca978112ca1bbdcafac231b39a23dc4da786eff8147c4e72b9807785afee48bb''
      else if s = ''b'' then ''3e23e8160039594a33894f6564e1b1348bbd7a0088d42c4acb73eeaed59c009d''
      else ''e3b0c44298fc1c149afbf4c8996fb92427ae41e4649b934ca495991b7852b855'')"

definition example_deps :: "(string \<rightharpoonup> jval) deps" where
  "example_deps =
     \<lparr>readStringParam = (\<lambda>args k. case args k of Some (JStr s) \<Rightarrow> Some s | _ \<Rightarrow> None),
      readStringParamRequired =
        (\<lambda>args k. case args k of Some (JStr s) \<Rightarrow> Inr s | _ \<Rightarrow> Inl (Error (k @ '' required''))),
      readBoolParam = (\<lambda>args k. case args k of Some (JBool b) \<Rightarrow> Some b | _ \<Rightarrow> None),
      normalizeCacheKey = (\<lambda>s. ascii_toLowerCase (ascii_trim s)),
      readResponseText = raw_text,
      sha256_hex = example_digest,
      DEFAULT_CACHE_TTL_MINUTES = 15,
      trim = ascii_trim,
      toLowerCase = ascii_toLowerCase,
      toUpperCase = ascii_toUpperCase\<rparr>"

definition empty_world :: world where
  "empty_world = \<lparr>SUMMARIZE_CACHE = Map.empty, FASTGPT_CACHE = Map.empty, fetched = []\<rparr>"

text \<open>An upstream that answers every request with the given outcome, a configured key,
  and all four clock readings as given.\<close>

definition example_env :: "string option \<Rightarrow> fetch_outcome \<Rightarrow> call_env" where
  "example_env env_key outcome =
     \<lparr>KAGI_API_KEY = env_key, fetch = (\<lambda>req. outcome),
      now_read = 1000, now_start = 1000, now_end = 1250, now_write = 1250\<rparr>"

definition server_error :: response where
  "server_error =
     \<lparr>ok = False, status = 500, statusText = ''Internal Server Error'', raw_text = [],
      json = Inl (SyntaxError ''Unexpected end of JSON input'')\<rparr>"

definition answer :: "string \<Rightarrow> response" where
  "answer s =
     \<lparr>ok = True, status = 200, statusText = ''OK'', raw_text = [],
      json = Inr \<lparr>meta = None,
                 data = Some \<lparr>data_output = Some s, tokens = None, references = None\<rparr>,
                 error = None\<rparr>\<rparr>"

definition logical_error :: response where
  "logical_error =
     \<lparr>ok = True, status = 200, statusText = ''OK'', raw_text = [],
      json = Inr \<lparr>meta = None, data = None,
                 error = Some \<lparr>code = Some 1, msg = Some ''Insufficient credit''\<rparr>\<rparr>\<rparr>"





text \<open>Arguments for a URL and for a query, with and without \<open>cache: false\<close>, and a
  \<open>fetch\<close> that is aborted by its timeout.\<close>

definition uncached_args :: "string \<rightharpoonup> jval" where
  "uncached_args = [''url'' \<mapsto> JStr ''https://example.com'', ''cache'' \<mapsto> JBool False]"

definition uncached_query :: "string \<rightharpoonup> jval" where
  "uncached_query = [''query'' \<mapsto> JStr ''why is the sky blue'', ''cache'' \<mapsto> JBool False]"

definition url_args :: "string \<rightharpoonup> jval" where
  "url_args = [''url'' \<mapsto> JStr ''https://example.com'']"

definition query_args :: "string \<rightharpoonup> jval" where
  "query_args = [''query'' \<mapsto> JStr ''why is the sky blue'']"

definition timed_out :: fetch_outcome where
  "timed_out = Rejects (TimeoutError ''The operation was aborted due to timeout'')"

text \<open>Parameters of \<open>runSummarize\<close> for a text and for a URL, and of \<open>runFastGPT\<close> for
  a query.\<close>

definition text_params :: "string option \<Rightarrow> summarize_params" where
  "text_params t =
     \<lparr>p_url = None, p_text = t, p_engine = ''cecil'', p_summaryType = ''summary'',
      p_targetLanguage = None, p_apiKey = ''key'', p_cache = True, p_timeoutSeconds = 60,
      p_cacheTtlMs = 900000\<rparr>"

definition url_params :: "string \<Rightarrow> summarize_params" where
  "url_params u =
     \<lparr>p_url = Some u, p_text = None, p_engine = ''cecil'', p_summaryType = ''summary'',
      p_targetLanguage = None, p_apiKey = ''key'', p_cache = True, p_timeoutSeconds = 60,
      p_cacheTtlMs = 900000\<rparr>"

definition query_params :: "string \<Rightarrow> fastgpt_params" where
  "query_params q =
     \<lparr>q_query = q, q_apiKey = ''key'', q_cache = True, q_timeoutSeconds = 30,
      q_cacheTtlMs = 900000\<rparr>"

text \<open>
  The shape of an inbound email the handler expects: an object whose \<open>Subject\<close>,
  \<open>From\<close>, \<open>StrippedTextReply\<close> and \<open>TextBody\<close>, and the \<open>Name\<close> of whose
  \<open>FromFull\<close>, are strings where they are present.
\<close>

definition is_text :: "jval \<Rightarrow> bool" where
  "is_text v = (case v of JUndefined \<Rightarrow> True | JStr s \<Rightarrow> True | _ \<Rightarrow> False)"

definition postmark_shaped :: "jval \<Rightarrow> bool" where
  "postmark_shaped email =
     ((case email of JObj kvs \<Rightarrow> True | _ \<Rightarrow> False)
      \<and> is_text (property email ''Subject'')
      \<and> is_text (property email ''From'')
      \<and> is_text (opt_prop (property email ''FromFull'') ''Name'')
      \<and> is_text (property email ''StrippedTextReply'')
      \<and> is_text (property email ''TextBody''))"

text \<open>
  An inbound email and the text of its JSON body; built-ins that know the bodies and
  paths the examples use (a path without query is its own pathname, and in ASCII text a
  byte is a code unit); a response nothing
  has been written to; a POST to the webhook path with the given chunks, and a GET.
\<close>

definition quoted :: "string \<Rightarrow> string" where
  "quoted s = [CHR 0x22] @ s @ [CHR 0x22]"

definition example_body :: string where
  "example_body =
     ''{'' @ quoted ''MessageID'' @ '':'' @ quoted ''m-1'' @ '',''
       @ quoted ''From'' @ '':'' @ quoted ''alice@example.com'' @ '',''
       @ quoted ''Subject'' @ '':'' @ quoted ''Hello'' @ '',''
       @ quoted ''TextBody'' @ '':'' @ quoted ''Full body with quoted history'' @ '',''
       @ quoted ''StrippedTextReply'' @ '':'' @ quoted ''Short reply'' @ ''}''"

definition example_email :: jval where
  "example_email =
     JObj [(''MessageID'', JStr ''m-1''),
           (''From'', JStr ''alice@example.com''),
           (''Subject'', JStr ''Hello''),
           (''TextBody'', JStr ''Full body with quoted history''),
           (''StrippedTextReply'', JStr ''Short reply'')]"

definition example_webhook_deps :: webhook_deps where
  "example_webhook_deps =
     \<lparr>URL_pathname = (\<lambda>u. Inr u),
      JSON_parse =
        (\<lambda>s. if s = ''null'' then Inr JNull
             else if s = example_body then Inr example_email
             else Inl (SyntaxError ''Unexpected token'')),
      JSON_stringify_pretty = (\<lambda>v. if v = JNull then ''null'' else example_body),
      String_length = length,
      String_substring = (\<lambda>s a b. take (b - a) (drop a s))\<rparr>"

definition fresh_state :: handler_state where
  "fresh_state =
     \<lparr>res = \<lparr>statusCode = 200, res_headers = [], ended = None\<rparr>,
      log_lines = [], telegram = []\<rparr>"

definition post_request :: "string list \<Rightarrow> http_request" where
  "post_request cs =
     \<lparr>req_method = Some ''POST'', req_url = Some ''/webhooks/postmark'', chunks = cs,
      stream_error = None\<rparr>"

definition get_request :: "string \<Rightarrow> http_request" where
  "get_request u =
     \<lparr>req_method = Some ''GET'', req_url = Some u, chunks = [], stream_error = None\<rparr>"

text \<open>Options whose configuration reaches \<open>tools.web\<close>, and settings of the two adapters
  with the given \<open>enabled\<close> and \<open>apiKey\<close> and nothing else.\<close>

definition web_options ::
  "summarizer_config option \<Rightarrow> kagi_config option \<Rightarrow> bool option \<Rightarrow> tool_options option" where
  "web_options scfg fcfg sb =
     Some \<lparr>config = Some \<lparr>tools = Some \<lparr>web = Some \<lparr>summarizer = scfg, fastgpt = fcfg\<rparr>\<rparr>\<rparr>,
           sandboxed = sb\<rparr>"

definition summarizer_settings :: "bool option \<Rightarrow> string option \<Rightarrow> summarizer_config" where
  "summarizer_settings en k =
     \<lparr>enabled = en, apiKey = k, timeoutSeconds = None, cacheTtlMinutes = None, cache = None,
      engine = None, summaryType = None, targetLanguage = None\<rparr>"

definition fastgpt_settings :: "bool option \<Rightarrow> string option \<Rightarrow> kagi_config" where
  "fastgpt_settings en k =
     \<lparr>enabled = en, apiKey = k, timeoutSeconds = None, cacheTtlMinutes = None, cache = None\<rparr>"

section \<open>Properties of the cache store\<close>

text \<open>
  C2. After \<open>write(store, k, v, t)\<close> at clock reading \<open>now\<close>, a read of \<open>k\<close> at \<open>now'\<close>
  returns \<open>v\<close> while \<open>t\<close> has not elapsed (\<open>now' < now + t\<close>) and is a miss after it has
  (\<open>now + t < now'\<close>); whatever the store holds, a read never returns an entry past its
  expiry; and after a write with \<open>ttlMs <= 0\<close> every read that follows the write (at a
  clock reading that is not before the one of the write), the very next one included, is
  a miss.
\<close>

theorem cache_write_then_read:
  fixes store :: "'v cache_store"
  shows "(now' < now + t \<longrightarrow>
            fst (readCache now' (writeCache now store k v t) k)
              = Some \<lparr>cached_value = v, expiresAtEpochMs = now + t\<rparr>)
       \<and> (now + t < now' \<longrightarrow> fst (readCache now' (writeCache now store k v t) k) = None)
       \<and> (\<forall>e. fst (readCache now' store k) = Some e \<longrightarrow> \<not> expiresAtEpochMs e < now')
       \<and> (t \<le> 0 \<and> now \<le> now' \<longrightarrow> fst (readCache now' (writeCache now store k v t) k) = None)"
  by (auto simp: readCache_def writeCache_def split: option.splits if_splits)

theorem cache_write_then_read_witness:
  "fst (readCache 120 (writeCache 100 Map.empty ''k'' (7::nat) 50) ''k'')
     = Some \<lparr>cached_value = 7, expiresAtEpochMs = 150\<rparr>
   \<and> fst (readCache 151 (writeCache 100 Map.empty ''k'' (7::nat) 50) ''k'') = None
   \<and> \<not> expiresAtEpochMs
        (the (fst (readCache 120 [''k'' \<mapsto> \<lparr>cached_value = 7::nat, expiresAtEpochMs = 150\<rparr>] ''k'')))
        < 120
   \<and> fst (readCache 100 (writeCache 100 Map.empty ''k'' (7::nat) 0) ''k'') = None
   \<and> fst (readCache 100 (writeCache 100 Map.empty ''k'' (7::nat) (- 1)) ''k'') = None"
  using cache_write_then_read [of 120 100 50 Map.empty "''k''" "7::nat"]
        cache_write_then_read [of 151 100 50 Map.empty "''k''" "7::nat"]
        cache_write_then_read [of 120 0 0
          "[''k'' \<mapsto> \<lparr>cached_value = 7::nat, expiresAtEpochMs = 150\<rparr>]" "''k''" "7::nat"]
        cache_write_then_read [of 100 100 0 Map.empty "''k''" "7::nat"]
        cache_write_then_read [of 100 100 "- 1" Map.empty "''k''" "7::nat"]
  by (simp add: readCache_def)

section \<open>Credentials and construction\<close>

lemmas case_eval = ascii_toLowerCase_def ascii_toUpperCase_def ascii_trim_def is_space_def
  lower_char_def upper_char_def upper_letters_def lower_letters_def

lemmas exec_eval = summarize_execute_def runSummarize_def summarizeParams_def
  summarizeCacheKey_def summarizeRawKey_def summarizeSourceKey_def summarizeRequest_def
  summarizeBody_def summarizePayload_def upstream_output_def
  fastgpt_execute_def runFastGPT_def fastgptParams_def fastgptCacheKey_def fastgptRawKey_def
  fastgptRequest_def fastgptPayload_def
  resolveKagiApiKey_def resolveDefaultCache_def resolveDefaultEngine_def
  resolveDefaultSummaryType_def resolveDefaultTargetLanguage_def resolveTimeoutSeconds_def
  resolveFastGPTTimeoutSeconds_def resolveCacheTtlMs_def
  validateEngine_def validateSummaryType_def validateTargetLanguage_def
  example_deps_def example_env_def empty_world_def server_error_def answer_def
  logical_error_def truthy_str_def str_or_def show_bool_def jnum_opt_def
  readCache_def writeCache_def Let_def

lemma resolveKagiApiKey_None:
  "(resolveKagiApiKey d cfg env_key = None)
     = (blank d (Option.bind cfg apiKey) \<and> env_blank d env_key)"
  by (auto simp: resolveKagiApiKey_def blank_def env_blank_def truthy_str_def Let_def
        split: option.splits)

lemma example_key:
  "resolveKagiApiKey example_deps None (KAGI_API_KEY (example_env (Some ''key'') outcome))
     = Some ''key''"
  by (simp add: resolveKagiApiKey_def example_env_def truthy_str_def example_deps_def
        ascii_trim_def is_space_def)

lemma example_no_key:
  "resolveKagiApiKey example_deps None (KAGI_API_KEY (example_env None outcome)) = None"
  by (simp add: resolveKagiApiKey_def example_env_def truthy_str_def example_deps_def
        ascii_trim_def)

lemma summarizer_at_path:
  "resolveSummarizerConfig None = None"
  "resolveSummarizerConfig (Some \<lparr>tools = None\<rparr>) = None"
  "resolveSummarizerConfig (Some \<lparr>tools = Some \<lparr>web = None\<rparr>\<rparr>) = None"
  "resolveSummarizerConfig
     (Some \<lparr>tools = Some \<lparr>web = Some \<lparr>summarizer = scfg, fastgpt = fcfg\<rparr>\<rparr>\<rparr>) = scfg"
  by (simp_all add: resolveSummarizerConfig_def)

lemma fastgpt_at_path:
  "resolveFastGPTConfig None = None"
  "resolveFastGPTConfig (Some \<lparr>tools = None\<rparr>) = None"
  "resolveFastGPTConfig (Some \<lparr>tools = Some \<lparr>web = None\<rparr>\<rparr>) = None"
  "resolveFastGPTConfig
     (Some \<lparr>tools = Some \<lparr>web = Some \<lparr>summarizer = scfg, fastgpt = fcfg\<rparr>\<rparr>\<rparr>) = fcfg"
  by (simp_all add: resolveFastGPTConfig_def)

lemma summarize_tool_None:
  "(createKagiSummarizeTool d options env_key = None)
     = (Option.bind (resolveSummarizerConfig (Option.bind options config)) enabled = Some False
        \<or> (blank d (Option.bind (resolveSummarizerConfig (Option.bind options config)) apiKey)
            \<and> env_blank d env_key \<and> Option.bind options sandboxed \<noteq> Some True))"
  by (auto simp: createKagiSummarizeTool_def Let_def resolveSummarizerEnabled_def
        resolveKagiApiKey_None split: option.splits)

lemma fastgpt_tool_None:
  "(createKagiFastGPTTool d options env_key = None)
     = (Option.bind (resolveFastGPTConfig (Option.bind options config)) enabled = Some False
        \<or> (blank d (Option.bind (resolveFastGPTConfig (Option.bind options config)) apiKey)
            \<and> env_blank d env_key \<and> Option.bind options sandboxed \<noteq> Some True))"
  by (auto simp: createKagiFastGPTTool_def Let_def resolveFastGPTEnabled_def
        resolveKagiApiKey_None split: option.splits)

text \<open>
  C9. Construction returns no tool exactly when the adapter is configured disabled
  (\<open>enabled: false\<close> at \<open>options.config.tools.web.summarizer\<close>, respectively
  \<open>.fastgpt\<close>), or when neither \<open>apiKey\<close> at that place nor \<open>KAGI_API_KEY\<close> holds a
  credential and the caller is not in sandboxed mode; in every other case it returns a
  tool. Where the options, the configuration, \<open>tools\<close> or \<open>web\<close> is absent there is no
  configured setting, and only the environment variable and the sandboxed flag decide.
  This holds for \<open>createKagiSummarizeTool\<close> and for \<open>createKagiFastGPTTool\<close>.
\<close>

theorem tool_construction:
  "(createKagiSummarizeTool d
       (Some \<lparr>config = Some \<lparr>tools = Some \<lparr>web = Some \<lparr>summarizer = scfg, fastgpt = fcfg\<rparr>\<rparr>\<rparr>,
              sandboxed = sb\<rparr>) env_key = None)
     = (Option.bind scfg enabled = Some False
        \<or> (blank d (Option.bind scfg apiKey) \<and> env_blank d env_key \<and> sb \<noteq> Some True))
   \<and> (createKagiFastGPTTool d
       (Some \<lparr>config = Some \<lparr>tools = Some \<lparr>web = Some \<lparr>summarizer = scfg, fastgpt = fcfg\<rparr>\<rparr>\<rparr>,
              sandboxed = sb\<rparr>) env_key = None)
     = (Option.bind fcfg enabled = Some False
        \<or> (blank d (Option.bind fcfg apiKey) \<and> env_blank d env_key \<and> sb \<noteq> Some True))
   \<and> (createKagiSummarizeTool d
        (Some \<lparr>config = Some \<lparr>tools = Some \<lparr>web = None\<rparr>\<rparr>, sandboxed = sb\<rparr>) env_key = None)
     = (env_blank d env_key \<and> sb \<noteq> Some True)
   \<and> (createKagiFastGPTTool d
        (Some \<lparr>config = Some \<lparr>tools = Some \<lparr>web = None\<rparr>\<rparr>, sandboxed = sb\<rparr>) env_key = None)
     = (env_blank d env_key \<and> sb \<noteq> Some True)
   \<and> (createKagiSummarizeTool d
        (Some \<lparr>config = Some \<lparr>tools = None\<rparr>, sandboxed = sb\<rparr>) env_key = None)
     = (env_blank d env_key \<and> sb \<noteq> Some True)
   \<and> (createKagiFastGPTTool d
        (Some \<lparr>config = Some \<lparr>tools = None\<rparr>, sandboxed = sb\<rparr>) env_key = None)
     = (env_blank d env_key \<and> sb \<noteq> Some True)
   \<and> (createKagiSummarizeTool d (Some \<lparr>config = None, sandboxed = sb\<rparr>) env_key = None)
     = (env_blank d env_key \<and> sb \<noteq> Some True)
   \<and> (createKagiFastGPTTool d (Some \<lparr>config = None, sandboxed = sb\<rparr>) env_key = None)
     = (env_blank d env_key \<and> sb \<noteq> Some True)
   \<and> (createKagiSummarizeTool d None env_key = None) = env_blank d env_key
   \<and> (createKagiFastGPTTool d None env_key = None) = env_blank d env_key"
  by (simp add: summarize_tool_None fastgpt_tool_None summarizer_at_path fastgpt_at_path
        blank_def)

theorem tool_construction_witness:
  "createKagiSummarizeTool example_deps
     (web_options (Some (summarizer_settings (Some False) (Some ''key''))) None (Some True))
     (Some ''key'') = None
   \<and> createKagiSummarizeTool example_deps
     (web_options (Some (summarizer_settings None (Some ''key''))) None None) None \<noteq> None
   \<and> createKagiSummarizeTool example_deps
     (web_options (Some (summarizer_settings (Some True) (Some ''  ''))) None None) None = None
   \<and> createKagiSummarizeTool example_deps
     (web_options (Some (summarizer_settings (Some True) (Some ''  ''))) None (Some True)) None
       \<noteq> None
   \<and> createKagiFastGPTTool example_deps
     (web_options None (Some (fastgpt_settings (Some False) (Some ''key''))) (Some True))
     (Some ''key'') = None
   \<and> createKagiFastGPTTool example_deps
     (web_options (Some (summarizer_settings (Some False) None)) (Some (fastgpt_settings None None))
        None) (Some '' key '') \<noteq> None
   \<and> createKagiSummarizeTool example_deps None None = None
   \<and> createKagiFastGPTTool example_deps None (Some ''key'') \<noteq> None"
  using tool_construction [of example_deps "Some (summarizer_settings (Some False) (Some ''key''))"
          None "Some True" "Some ''key''"]
        tool_construction [of example_deps "Some (summarizer_settings None (Some ''key''))"
          None None None]
        tool_construction [of example_deps "Some (summarizer_settings (Some True) (Some ''  ''))"
          None None None]
        tool_construction [of example_deps "Some (summarizer_settings (Some True) (Some ''  ''))"
          None "Some True" None]
        tool_construction [of example_deps None "Some (fastgpt_settings (Some False) (Some ''key''))"
          "Some True" "Some ''key''"]
        tool_construction [of example_deps "Some (summarizer_settings (Some False) None)"
          "Some (fastgpt_settings None None)" None "Some '' key ''"]
        tool_construction [of example_deps None None None None]
        tool_construction [of example_deps None None None "Some ''key''"]
  by (simp add: web_options_def summarizer_settings_def fastgpt_settings_def blank_def
        env_blank_def example_deps_def ascii_trim_def is_space_def)

text \<open>
  C10 (as amended). A tool that was constructed while no credential was resolvable, which
  only sandboxed mode allows, resolves the credential again on every invocation; as long
  as \<open>KAGI_API_KEY\<close> still holds no credential at that time, \<open>execute\<close> returns for any
  arguments the structured result with error code \<open>missing_kagi_api_key\<close>; nothing is
  thrown, and the world is left as it was: no request is made and no cache is touched.
\<close>

theorem sandboxed_without_key:
  "(createKagiSummarizeTool d options env_key = Some stool
      \<and> resolveKagiApiKey d (captured_config stool) env_key = None
      \<and> env_blank d (KAGI_API_KEY env)
    \<longrightarrow> Option.bind options sandboxed = Some True
        \<and> summarize_execute d (captured_config stool) env args w
            = (Inr (jsonResult summarize_missing_key), w))
   \<and> (createKagiFastGPTTool d options env_key = Some ftool
      \<and> resolveKagiApiKey d (captured_config ftool) env_key = None
      \<and> env_blank d (KAGI_API_KEY env)
    \<longrightarrow> Option.bind options sandboxed = Some True
        \<and> fastgpt_execute d (captured_config ftool) env fargs w
            = (Inr (jsonResult fastgpt_missing_key), w))
   \<and> map_of summarize_missing_key ''error'' = Some (JStr ''missing_kagi_api_key'')
   \<and> map_of fastgpt_missing_key ''error'' = Some (JStr ''missing_kagi_api_key'')
   \<and> ''message'' \<in> fst ` set summarize_missing_key
   \<and> ''message'' \<in> fst ` set fastgpt_missing_key"
proof -
  have s: "Option.bind options sandboxed = Some True
        \<and> summarize_execute d (captured_config stool) env args w
            = (Inr (jsonResult summarize_missing_key), w)"
    if built: "createKagiSummarizeTool d options env_key = Some stool"
      and none: "resolveKagiApiKey d (captured_config stool) env_key = None"
      and still: "env_blank d (KAGI_API_KEY env)"
  proof -
    have cc: "captured_config stool = resolveSummarizerConfig (Option.bind options config)"
      using built by (auto simp: createKagiSummarizeTool_def Let_def split: if_splits)
    have sb: "Option.bind options sandboxed = Some True"
      using built none unfolding cc
      by (auto simp: createKagiSummarizeTool_def Let_def split: if_splits)
    have k: "resolveKagiApiKey d (captured_config stool) (KAGI_API_KEY env) = None"
      using none still by (simp add: resolveKagiApiKey_None)
    show ?thesis
      using sb k by (simp add: summarize_execute_def)
  qed
  have f: "Option.bind options sandboxed = Some True
        \<and> fastgpt_execute d (captured_config ftool) env fargs w
            = (Inr (jsonResult fastgpt_missing_key), w)"
    if built: "createKagiFastGPTTool d options env_key = Some ftool"
      and none: "resolveKagiApiKey d (captured_config ftool) env_key = None"
      and still: "env_blank d (KAGI_API_KEY env)"
  proof -
    have cc: "captured_config ftool = resolveFastGPTConfig (Option.bind options config)"
      using built by (auto simp: createKagiFastGPTTool_def Let_def split: if_splits)
    have sb: "Option.bind options sandboxed = Some True"
      using built none unfolding cc
      by (auto simp: createKagiFastGPTTool_def Let_def split: if_splits)
    have k: "resolveKagiApiKey d (captured_config ftool) (KAGI_API_KEY env) = None"
      using none still by (simp add: resolveKagiApiKey_None)
    show ?thesis
      using sb k by (simp add: fastgpt_execute_def)
  qed
  have m: "map_of summarize_missing_key ''error'' = Some (JStr ''missing_kagi_api_key'')"
    "map_of fastgpt_missing_key ''error'' = Some (JStr ''missing_kagi_api_key'')"
    "''message'' \<in> fst ` set summarize_missing_key"
    "''message'' \<in> fst ` set fastgpt_missing_key"
    by (simp_all add: summarize_missing_key_def fastgpt_missing_key_def)
  show ?thesis
    using s f m by blast
qed

theorem sandboxed_without_key_witness:
  "summarize_execute example_deps (Some (summarizer_settings None (Some ''  '')))
     (example_env None (Resolves (answer ''x'')))
     [''url'' \<mapsto> JStr ''https://example.com''] empty_world
     = (Inr (jsonResult summarize_missing_key), empty_world)
   \<and> fastgpt_execute example_deps (Some (fastgpt_settings None None))
     (example_env None (Resolves (answer ''x'')))
     [''query'' \<mapsto> JStr ''why is the sky blue''] empty_world
     = (Inr (jsonResult fastgpt_missing_key), empty_world)"
proof -
  let ?scfg = "Some (summarizer_settings None (Some ''  ''))"
  let ?fcfg = "Some (fastgpt_settings None None)"
  let ?o = "web_options ?scfg ?fcfg (Some True)"
  let ?env = "example_env None (Resolves (answer ''x''))"
  let ?stool = "\<lparr>label = ''Kagi Summarizer'', name = ''kagi_summarize'',
                  description = description (the (createKagiSummarizeTool example_deps ?o None)),
                  captured_config = ?scfg\<rparr>"
  let ?ftool = "\<lparr>label = ''Kagi FastGPT'', name = ''kagi_fastgpt'',
                  description = description (the (createKagiFastGPTTool example_deps ?o None)),
                  captured_config = ?fcfg\<rparr>"
  have s: "createKagiSummarizeTool example_deps ?o None = Some ?stool"
    by (simp add: createKagiSummarizeTool_def resolveSummarizerConfig_def
          resolveSummarizerEnabled_def web_options_def summarizer_settings_def)
  have f: "createKagiFastGPTTool example_deps ?o None = Some ?ftool"
    by (simp add: createKagiFastGPTTool_def resolveFastGPTConfig_def
          resolveFastGPTEnabled_def web_options_def fastgpt_settings_def)
  have ks: "resolveKagiApiKey example_deps (captured_config ?stool) None = None"
    by (simp add: resolveKagiApiKey_def summarizer_settings_def truthy_str_def example_deps_def
          ascii_trim_def is_space_def)
  have kf: "resolveKagiApiKey example_deps (captured_config ?ftool) None = None"
    by (simp add: resolveKagiApiKey_def fastgpt_settings_def truthy_str_def example_deps_def
          ascii_trim_def)
  have e: "env_blank example_deps (KAGI_API_KEY ?env)"
    by (simp add: env_blank_def example_env_def example_deps_def ascii_trim_def)
  show ?thesis
    using sandboxed_without_key [where d = example_deps and options = ?o and env_key = None
            and stool = ?stool and ftool = ?ftool and env = ?env
            and args = "[''url'' \<mapsto> JStr ''https://example.com'']" and w = empty_world
            and fargs = "[''query'' \<mapsto> JStr ''why is the sky blue'']"]
          s f ks kf e
    by simp
qed

text \<open>
  C10 as stated fails when the credential arrives after construction: a tool constructed
  in sandboxed mode with no key configured and \<open>KAGI_API_KEY\<close> unset, invoked once the
  variable holds a key, resolves that key, calls the upstream and returns its payload.
\<close>

theorem key_set_after_construction_counterexample:
  "createKagiSummarizeTool example_deps (Some \<lparr>config = None, sandboxed = Some True\<rparr>) None
     \<noteq> None
   \<and> resolveKagiApiKey example_deps
        (captured_config (the (createKagiSummarizeTool example_deps
           (Some \<lparr>config = None, sandboxed = Some True\<rparr>) None))) None = None
   \<and> fst (summarize_execute example_deps
        (captured_config (the (createKagiSummarizeTool example_deps
           (Some \<lparr>config = None, sandboxed = Some True\<rparr>) None)))
        (example_env (Some ''key'') (Resolves (answer ''x''))) url_args empty_world)
     = Inr (jsonResult
         [(''provider'', JStr ''kagi-summarizer''), (''source'', JStr ''https://example.com''),
          (''engine'', JStr ''cecil''), (''summaryType'', JStr ''summary''),
          (''targetLanguage'', JStr ''auto''), (''tookMs'', JNum 250),
          (''summary'', JStr ''x''), (''tokens'', JUndefined), (''apiBalance'', JUndefined)])
   \<and> map endpoint (fetched (snd (summarize_execute example_deps
        (captured_config (the (createKagiSummarizeTool example_deps
           (Some \<lparr>config = None, sandboxed = Some True\<rparr>) None)))
        (example_env (Some ''key'') (Resolves (answer ''x''))) url_args empty_world)))
     = [''https://kagi.com/api/v0/summarize'']"
  by (simp add: createKagiSummarizeTool_def resolveSummarizerConfig_def
        resolveSummarizerEnabled_def exec_eval case_eval url_args_def
        KAGI_SUMMARIZE_ENDPOINT_def)

section \<open>Validation of the summarizer's input\<close>

text \<open>
  C5 (as amended). When a credential resolves at call time, calling the summarize
  operation with neither \<open>url\<close> nor \<open>text\<close> returns the structured result with error code
  \<open>missing_input\<close>, and calling it with both returns the one with code
  \<open>conflicting_input\<close>; in both cases the world is left as it was, so no upstream call is
  made.
\<close>

theorem exclusive_input:
  assumes "resolveKagiApiKey d cfg (KAGI_API_KEY env) = Some key"
  shows "(\<not> truthy_str (readStringParam d args ''url'')
            \<and> \<not> truthy_str (readStringParam d args ''text'')
          \<longrightarrow> summarize_execute d cfg env args w = (Inr (jsonResult missing_input), w))
       \<and> (truthy_str (readStringParam d args ''url'')
            \<and> truthy_str (readStringParam d args ''text'')
          \<longrightarrow> summarize_execute d cfg env args w = (Inr (jsonResult conflicting_input), w))
       \<and> map_of missing_input ''error'' = Some (JStr ''missing_input'')
       \<and> map_of conflicting_input ''error'' = Some (JStr ''conflicting_input'')"
  using assms
  by (simp add: summarize_execute_def missing_input_def conflicting_input_def Let_def)

theorem exclusive_input_witness:
  "summarize_execute example_deps None (example_env (Some ''key'') (Resolves (answer ''x'')))
     Map.empty empty_world = (Inr (jsonResult missing_input), empty_world)
   \<and> summarize_execute example_deps None (example_env (Some ''key'') (Resolves (answer ''x'')))
     [''url'' \<mapsto> JStr ''https://example.com'', ''text'' \<mapsto> JStr ''a'']  empty_world
     = (Inr (jsonResult conflicting_input), empty_world)"
  using exclusive_input [OF example_key, where args = Map.empty and w = empty_world
          and outcome1 = "Resolves (answer ''x'')"]
        exclusive_input [OF example_key, where w = empty_world
          and args = "[''url'' \<mapsto> JStr ''https://example.com'', ''text'' \<mapsto> JStr ''a'']"
          and outcome1 = "Resolves (answer ''x'')"]
  by (simp add: example_deps_def truthy_str_def)

text \<open>
  C5 as stated fails where no credential resolves at call time (a tool constructed in
  sandboxed mode): a call with neither \<open>url\<close> nor \<open>text\<close> then returns the result with
  code \<open>missing_kagi_api_key\<close>, not \<open>missing_input\<close>.
\<close>

theorem missing_key_precedes_input_counterexample:
  "summarize_execute example_deps None (example_env None (Resolves (answer ''x'')))
     Map.empty empty_world = (Inr (jsonResult summarize_missing_key), empty_world)
   \<and> map_of summarize_missing_key ''error'' = Some (JStr ''missing_kagi_api_key'')"
  by (simp add: summarize_execute_def resolveKagiApiKey_def example_env_def truthy_str_def
        summarize_missing_key_def example_deps_def ascii_trim_def)

section \<open>Enumerated parameters of the summarizer\<close>


lemma resolveDefaultEngine_valid: "resolveDefaultEngine cfg \<in> set SUMMARIZER_ENGINES"
  by (auto simp: resolveDefaultEngine_def SUMMARIZER_ENGINES_def split: option.splits)

lemma resolveDefaultSummaryType_valid: "resolveDefaultSummaryType cfg \<in> set SUMMARY_TYPES"
  by (auto simp: resolveDefaultSummaryType_def SUMMARY_TYPES_def split: option.splits)

lemma resolveDefaultTargetLanguage_valid:
  "resolveDefaultTargetLanguage d cfg = Some l \<Longrightarrow> l \<in> set TARGET_LANGUAGES"
  by (auto simp: resolveDefaultTargetLanguage_def split: option.splits if_splits)





lemma validate_None [simp]:
  "validateEngine d None = None" "validateSummaryType d None = None"
  "validateTargetLanguage d None = None"
  by (simp_all add: validateEngine_def validateSummaryType_def validateTargetLanguage_def
        truthy_str_def)






section \<open>Running against the upstream\<close>


lemma runSummarize_uncached_world:
  "\<not> p_cache params \<Longrightarrow>
     snd (runSummarize d env params w) = w\<lparr>fetched := fetched w @ [summarizeRequest params]\<rparr>"
  by (simp add: runSummarize_def Let_def
        split: fetch_outcome.splits sum.splits option.splits)

lemma runSummarize_uncached_result:
  "\<not> p_cache params \<Longrightarrow> fst (runSummarize d env params w) = fst (runSummarize d env params w')"
  by (simp add: runSummarize_def Let_def
        split: fetch_outcome.splits sum.splits option.splits)

lemma runSummarize_rejects:
  assumes "p_cache params \<longrightarrow>
             fst (readCache (now_read env) (SUMMARIZE_CACHE w) (summarizeCacheKey d params)) = None"
    and "fetch env (summarizeRequest params) = Rejects x"
  shows "fst (runSummarize d env params w) = Inl x"
  using assms
  by (cases "readCache (now_read env) (SUMMARIZE_CACHE w) (summarizeCacheKey d params)")
     (simp add: runSummarize_def Let_def)

lemma runSummarize_not_ok:
  assumes "p_cache params \<longrightarrow>
             fst (readCache (now_read env) (SUMMARIZE_CACHE w) (summarizeCacheKey d params)) = None"
    and "fetch env (summarizeRequest params) = Resolves rsp" and "\<not> ok rsp"
  shows "fst (runSummarize d env params w)
           = Inl (Error (''Kagi Summarizer API error ('' @ show_nat (status rsp) @ ''): ''
                   @ (if readResponseText d rsp = [] then statusText rsp
                      else readResponseText d rsp)))"
  using assms
  by (cases "readCache (now_read env) (SUMMARIZE_CACHE w) (summarizeCacheKey d params)")
     (simp add: runSummarize_def Let_def)

lemma runSummarize_logical_error:
  assumes "p_cache params \<longrightarrow>
             fst (readCache (now_read env) (SUMMARIZE_CACHE w) (summarizeCacheKey d params)) = None"
    and "fetch env (summarizeRequest params) = Resolves rsp" and "ok rsp"
    and "json rsp = Inr r" and "error r = Some err"
  shows "fst (runSummarize d env params w)
           = Inl (Error (''Kagi Summarizer API error: '' @ str_or (msg err) ''Unknown error''))"
  using assms
  by (cases "readCache (now_read env) (SUMMARIZE_CACHE w) (summarizeCacheKey d params)")
     (simp add: runSummarize_def Let_def)

lemma runSummarize_success:
  assumes "p_cache params \<longrightarrow>
             fst (readCache (now_read env) (SUMMARIZE_CACHE w) (summarizeCacheKey d params)) = None"
    and "fetch env (summarizeRequest params) = Resolves rsp" and "ok rsp"
    and "json rsp = Inr r" and "error r = None"
  shows "fst (runSummarize d env params w) = Inr (summarizePayload params env r)"
  using assms
  by (cases "readCache (now_read env) (SUMMARIZE_CACHE w) (summarizeCacheKey d params)")
     (simp add: runSummarize_def Let_def)

lemma summarize_execute_run:
  assumes "resolveKagiApiKey d cfg (KAGI_API_KEY env) = Some key"
    and "truthy_str (readStringParam d args ''url'') \<noteq> truthy_str (readStringParam d args ''text'')"
  shows "fst (summarize_execute d cfg env args w)
           = map_sum id jsonResult (fst (runSummarize d env (summarizeParams d cfg key args) w))"
    and "snd (summarize_execute d cfg env args w)
           = snd (runSummarize d env (summarizeParams d cfg key args) w)"
  using assms
  by (auto simp: summarize_execute_def Let_def split: prod.splits sum.splits)

lemma runFastGPT_uncached_world:
  "\<not> q_cache params \<Longrightarrow>
     snd (runFastGPT d env params w) = w\<lparr>fetched := fetched w @ [fastgptRequest params]\<rparr>"
  by (simp add: runFastGPT_def Let_def
        split: fetch_outcome.splits sum.splits option.splits)

lemma runFastGPT_uncached_result:
  "\<not> q_cache params \<Longrightarrow> fst (runFastGPT d env params w) = fst (runFastGPT d env params w')"
  by (simp add: runFastGPT_def Let_def
        split: fetch_outcome.splits sum.splits option.splits)

lemma runFastGPT_rejects:
  assumes "q_cache params \<longrightarrow>
             fst (readCache (now_read env) (FASTGPT_CACHE w) (fastgptCacheKey d params)) = None"
    and "fetch env (fastgptRequest params) = Rejects x"
  shows "fst (runFastGPT d env params w) = Inl x"
  using assms
  by (cases "readCache (now_read env) (FASTGPT_CACHE w) (fastgptCacheKey d params)")
     (simp add: runFastGPT_def Let_def)

lemma runFastGPT_not_ok:
  assumes "q_cache params \<longrightarrow>
             fst (readCache (now_read env) (FASTGPT_CACHE w) (fastgptCacheKey d params)) = None"
    and "fetch env (fastgptRequest params) = Resolves rsp" and "\<not> ok rsp"
  shows "fst (runFastGPT d env params w)
           = Inl (Error (''Kagi FastGPT API error ('' @ show_nat (status rsp) @ ''): ''
                   @ (if readResponseText d rsp = [] then statusText rsp
                      else readResponseText d rsp)))"
  using assms
  by (cases "readCache (now_read env) (FASTGPT_CACHE w) (fastgptCacheKey d params)")
     (simp add: runFastGPT_def Let_def)

lemma runFastGPT_logical_error:
  assumes "q_cache params \<longrightarrow>
             fst (readCache (now_read env) (FASTGPT_CACHE w) (fastgptCacheKey d params)) = None"
    and "fetch env (fastgptRequest params) = Resolves rsp" and "ok rsp"
    and "json rsp = Inr r" and "error r = Some err"
  shows "fst (runFastGPT d env params w)
           = Inl (Error (''Kagi FastGPT API error: '' @ str_or (msg err) ''Unknown error''))"
  using assms
  by (cases "readCache (now_read env) (FASTGPT_CACHE w) (fastgptCacheKey d params)")
     (simp add: runFastGPT_def Let_def)

lemma runFastGPT_success:
  assumes "q_cache params \<longrightarrow>
             fst (readCache (now_read env) (FASTGPT_CACHE w) (fastgptCacheKey d params)) = None"
    and "fetch env (fastgptRequest params) = Resolves rsp" and "ok rsp"
    and "json rsp = Inr r" and "error r = None"
  shows "fst (runFastGPT d env params w) = Inr (fastgptPayload params env r)"
  using assms
  by (cases "readCache (now_read env) (FASTGPT_CACHE w) (fastgptCacheKey d params)")
     (simp add: runFastGPT_def Let_def)

lemma fastgpt_execute_run:
  assumes "resolveKagiApiKey d cfg (KAGI_API_KEY env) = Some key"
    and "readStringParamRequired d args ''query'' = Inr q"
  shows "fst (fastgpt_execute d cfg env args w)
           = map_sum id jsonResult (fst (runFastGPT d env (fastgptParams d cfg key q args) w))"
    and "snd (fastgpt_execute d cfg env args w)
           = snd (runFastGPT d env (fastgptParams d cfg key q args) w)"
  using assms
  by (auto simp: fastgpt_execute_def Let_def split: prod.splits sum.splits)

lemma summarize_execute_bypass:
  assumes "(case readBoolParam d args ''cache'' of Some b \<Rightarrow> b | None \<Rightarrow> resolveDefaultCache cfg)
             = False"
  shows "SUMMARIZE_CACHE (snd (summarize_execute d cfg env args w)) = SUMMARIZE_CACHE w"
    and "FASTGPT_CACHE (snd (summarize_execute d cfg env args w)) = FASTGPT_CACHE w"
    and "fst (summarize_execute d cfg env args w) = fst (summarize_execute d cfg env args w')"
proof -
  have off: "\<not> p_cache (summarizeParams d cfg k args)" for k
    using assms by (simp add: summarizeParams_def)
  consider (nokey) "resolveKagiApiKey d cfg (KAGI_API_KEY env) = None"
    | (invalid) k where "resolveKagiApiKey d cfg (KAGI_API_KEY env) = Some k"
        "truthy_str (readStringParam d args ''url'') = truthy_str (readStringParam d args ''text'')"
    | (run) k where "resolveKagiApiKey d cfg (KAGI_API_KEY env) = Some k"
        "truthy_str (readStringParam d args ''url'') \<noteq> truthy_str (readStringParam d args ''text'')"
    by (cases "resolveKagiApiKey d cfg (KAGI_API_KEY env)") auto
  then have "SUMMARIZE_CACHE (snd (summarize_execute d cfg env args w)) = SUMMARIZE_CACHE w
     \<and> FASTGPT_CACHE (snd (summarize_execute d cfg env args w)) = FASTGPT_CACHE w
     \<and> fst (summarize_execute d cfg env args w) = fst (summarize_execute d cfg env args w')"
  proof cases
    case nokey
    then show ?thesis by (simp add: summarize_execute_def)
  next
    case invalid
    then show ?thesis by (simp add: summarize_execute_def Let_def)
  next
    case run
    show ?thesis
      using summarize_execute_run [OF run]
        runSummarize_uncached_world [OF off, where d = d and env = env and w = w]
        runSummarize_uncached_result [OF off, where d = d and env = env and w = w and w' = w']
      by simp
  qed
  then show "SUMMARIZE_CACHE (snd (summarize_execute d cfg env args w)) = SUMMARIZE_CACHE w"
    and "FASTGPT_CACHE (snd (summarize_execute d cfg env args w)) = FASTGPT_CACHE w"
    and "fst (summarize_execute d cfg env args w) = fst (summarize_execute d cfg env args w')"
    by simp_all
qed

lemma fastgpt_execute_bypass:
  assumes "(case readBoolParam d args ''cache'' of Some b \<Rightarrow> b | None \<Rightarrow> resolveDefaultCache cfg)
             = False"
  shows "SUMMARIZE_CACHE (snd (fastgpt_execute d cfg env args w)) = SUMMARIZE_CACHE w"
    and "FASTGPT_CACHE (snd (fastgpt_execute d cfg env args w)) = FASTGPT_CACHE w"
    and "fst (fastgpt_execute d cfg env args w) = fst (fastgpt_execute d cfg env args w')"
proof -
  have off: "\<not> q_cache (fastgptParams d cfg k q args)" for k q
    using assms by (simp add: fastgptParams_def)
  consider (nokey) "resolveKagiApiKey d cfg (KAGI_API_KEY env) = None"
    | (invalid) k x where "resolveKagiApiKey d cfg (KAGI_API_KEY env) = Some k"
        "readStringParamRequired d args ''query'' = Inl x"
    | (run) k q where "resolveKagiApiKey d cfg (KAGI_API_KEY env) = Some k"
        "readStringParamRequired d args ''query'' = Inr q"
    by (cases "resolveKagiApiKey d cfg (KAGI_API_KEY env)";
        cases "readStringParamRequired d args ''query''") auto
  then have "SUMMARIZE_CACHE (snd (fastgpt_execute d cfg env args w)) = SUMMARIZE_CACHE w
     \<and> FASTGPT_CACHE (snd (fastgpt_execute d cfg env args w)) = FASTGPT_CACHE w
     \<and> fst (fastgpt_execute d cfg env args w) = fst (fastgpt_execute d cfg env args w')"
  proof cases
    case nokey
    then show ?thesis by (simp add: fastgpt_execute_def)
  next
    case invalid
    then show ?thesis by (simp add: fastgpt_execute_def)
  next
    case run
    show ?thesis
      using fastgpt_execute_run [OF run]
        runFastGPT_uncached_world [OF off, where d = d and env = env and w = w]
        runFastGPT_uncached_result [OF off, where d = d and env = env and w = w and w' = w']
      by simp
  qed
  then show "SUMMARIZE_CACHE (snd (fastgpt_execute d cfg env args w)) = SUMMARIZE_CACHE w"
    and "FASTGPT_CACHE (snd (fastgpt_execute d cfg env args w)) = FASTGPT_CACHE w"
    and "fst (fastgpt_execute d cfg env args w) = fst (fastgpt_execute d cfg env args w')"
    by simp_all
qed

lemma summarizePayload_distinct:
  "upstream_output r \<noteq> upstream_output r' \<Longrightarrow>
     summarizePayload params env r \<noteq> summarizePayload params' env' r'"
  by (simp add: summarizePayload_def)

lemma fastgptPayload_distinct:
  "upstream_output r \<noteq> upstream_output r' \<Longrightarrow>
     fastgptPayload params env r \<noteq> fastgptPayload params' env' r'"
  by (simp add: fastgptPayload_def)

lemma summarize_execute_uncached_success:
  assumes "(case readBoolParam d args ''cache'' of Some b \<Rightarrow> b | None \<Rightarrow> resolveDefaultCache cfg)
             = False"
    and "resolveKagiApiKey d cfg (KAGI_API_KEY env) = Some key"
    and "truthy_str (readStringParam d args ''url'') \<noteq> truthy_str (readStringParam d args ''text'')"
    and "fetch env (summarizeRequest (summarizeParams d cfg key args)) = Resolves rsp"
    and "ok rsp" and "json rsp = Inr r" and "error r = None"
  shows "fst (summarize_execute d cfg env args w)
           = Inr (jsonResult (summarizePayload (summarizeParams d cfg key args) env r))"
proof -
  have off: "\<not> p_cache (summarizeParams d cfg key args)"
    using assms(1) by (simp add: summarizeParams_def)
  show ?thesis
    using summarize_execute_run(1) [OF assms(2,3)]
      runSummarize_success [OF _ assms(4-7), where d = d and w = w] off
    by simp
qed

lemma fastgpt_execute_uncached_success:
  assumes "(case readBoolParam d args ''cache'' of Some b \<Rightarrow> b | None \<Rightarrow> resolveDefaultCache cfg)
             = False"
    and "resolveKagiApiKey d cfg (KAGI_API_KEY env) = Some key"
    and "readStringParamRequired d args ''query'' = Inr q"
    and "fetch env (fastgptRequest (fastgptParams d cfg key q args)) = Resolves rsp"
    and "ok rsp" and "json rsp = Inr r" and "error r = None"
  shows "fst (fastgpt_execute d cfg env args w)
           = Inr (jsonResult (fastgptPayload (fastgptParams d cfg key q args) env r))"
proof -
  have off: "\<not> q_cache (fastgptParams d cfg key q args)"
    using assms(1) by (simp add: fastgptParams_def)
  show ?thesis
    using fastgpt_execute_run(1) [OF assms(2,3)]
      runFastGPT_success [OF _ assms(4-7), where d = d and w = w] off
    by simp
qed

text \<open>
  C4. When the cache flag of an invocation resolves to false (the \<open>cache\<close> argument is
  false, or absent with a configured default of false), neither cache map is read or
  written: both are the same after the call as before, and the result does not depend on
  what the world holds. Two consecutive such calls against an upstream that answers with
  different outputs each return the payload made from their own response, and the two
  results differ. This holds for the summarizer and for FastGPT.
\<close>

theorem cache_bypass:
  assumes "(case readBoolParam d args ''cache'' of
              Some b \<Rightarrow> b | None \<Rightarrow> resolveDefaultCache cfg) = False"
    and "(case readBoolParam d fargs ''cache'' of
              Some b \<Rightarrow> b | None \<Rightarrow> resolveDefaultCache fcfg) = False"
  shows "SUMMARIZE_CACHE (snd (summarize_execute d cfg env args w)) = SUMMARIZE_CACHE w
       \<and> FASTGPT_CACHE (snd (summarize_execute d cfg env args w)) = FASTGPT_CACHE w
       \<and> fst (summarize_execute d cfg env args w) = fst (summarize_execute d cfg env args w')
       \<and> SUMMARIZE_CACHE (snd (fastgpt_execute d fcfg env fargs w)) = SUMMARIZE_CACHE w
       \<and> FASTGPT_CACHE (snd (fastgpt_execute d fcfg env fargs w)) = FASTGPT_CACHE w
       \<and> fst (fastgpt_execute d fcfg env fargs w) = fst (fastgpt_execute d fcfg env fargs w')
       \<and> (resolveKagiApiKey d cfg (KAGI_API_KEY env_a) = Some k_a
            \<and> resolveKagiApiKey d cfg (KAGI_API_KEY env_b) = Some k_b
            \<and> truthy_str (readStringParam d args ''url'')
                 \<noteq> truthy_str (readStringParam d args ''text'')
            \<and> fetch env_a (summarizeRequest (summarizeParams d cfg k_a args)) = Resolves rsp_a
            \<and> ok rsp_a \<and> json rsp_a = Inr r_a \<and> error r_a = None
            \<and> fetch env_b (summarizeRequest (summarizeParams d cfg k_b args)) = Resolves rsp_b
            \<and> ok rsp_b \<and> json rsp_b = Inr r_b \<and> error r_b = None
            \<and> upstream_output r_a \<noteq> upstream_output r_b
          \<longrightarrow> fst (summarize_execute d cfg env_a args w)
                = Inr (jsonResult (summarizePayload (summarizeParams d cfg k_a args) env_a r_a))
              \<and> fst (summarize_execute d cfg env_b args
                        (snd (summarize_execute d cfg env_a args w)))
                = Inr (jsonResult (summarizePayload (summarizeParams d cfg k_b args) env_b r_b))
              \<and> fst (summarize_execute d cfg env_a args w)
                \<noteq> fst (summarize_execute d cfg env_b args
                          (snd (summarize_execute d cfg env_a args w))))
       \<and> (resolveKagiApiKey d fcfg (KAGI_API_KEY env_a) = Some k_a
            \<and> resolveKagiApiKey d fcfg (KAGI_API_KEY env_b) = Some k_b
            \<and> readStringParamRequired d fargs ''query'' = Inr q
            \<and> fetch env_a (fastgptRequest (fastgptParams d fcfg k_a q fargs)) = Resolves rsp_a
            \<and> ok rsp_a \<and> json rsp_a = Inr r_a \<and> error r_a = None
            \<and> fetch env_b (fastgptRequest (fastgptParams d fcfg k_b q fargs)) = Resolves rsp_b
            \<and> ok rsp_b \<and> json rsp_b = Inr r_b \<and> error r_b = None
            \<and> upstream_output r_a \<noteq> upstream_output r_b
          \<longrightarrow> fst (fastgpt_execute d fcfg env_a fargs w)
                = Inr (jsonResult (fastgptPayload (fastgptParams d fcfg k_a q fargs) env_a r_a))
              \<and> fst (fastgpt_execute d fcfg env_b fargs
                        (snd (fastgpt_execute d fcfg env_a fargs w)))
                = Inr (jsonResult (fastgptPayload (fastgptParams d fcfg k_b q fargs) env_b r_b))
              \<and> fst (fastgpt_execute d fcfg env_a fargs w)
                \<noteq> fst (fastgpt_execute d fcfg env_b fargs
                          (snd (fastgpt_execute d fcfg env_a fargs w))))"
proof -
  note s = summarize_execute_bypass [OF assms(1)]
  note f = fastgpt_execute_bypass [OF assms(2)]
  have two_s: "fst (summarize_execute d cfg env_a args w)
                = Inr (jsonResult (summarizePayload (summarizeParams d cfg k_a args) env_a r_a))
              \<and> fst (summarize_execute d cfg env_b args
                        (snd (summarize_execute d cfg env_a args w)))
                = Inr (jsonResult (summarizePayload (summarizeParams d cfg k_b args) env_b r_b))
              \<and> fst (summarize_execute d cfg env_a args w)
                \<noteq> fst (summarize_execute d cfg env_b args
                          (snd (summarize_execute d cfg env_a args w)))"
    if "resolveKagiApiKey d cfg (KAGI_API_KEY env_a) = Some k_a"
      "resolveKagiApiKey d cfg (KAGI_API_KEY env_b) = Some k_b"
      "truthy_str (readStringParam d args ''url'')
         \<noteq> truthy_str (readStringParam d args ''text'')"
      "fetch env_a (summarizeRequest (summarizeParams d cfg k_a args)) = Resolves rsp_a"
      "ok rsp_a" "json rsp_a = Inr r_a" "error r_a = None"
      "fetch env_b (summarizeRequest (summarizeParams d cfg k_b args)) = Resolves rsp_b"
      "ok rsp_b" "json rsp_b = Inr r_b" "error r_b = None"
      "upstream_output r_a \<noteq> upstream_output r_b"
    using summarize_execute_uncached_success [OF assms(1) that(1) that(3) that(4-7)]
      summarize_execute_uncached_success [OF assms(1) that(2) that(3) that(8-11)]
      summarizePayload_distinct [OF that(12)]
    by simp
  have two_f: "fst (fastgpt_execute d fcfg env_a fargs w)
                = Inr (jsonResult (fastgptPayload (fastgptParams d fcfg k_a q fargs) env_a r_a))
              \<and> fst (fastgpt_execute d fcfg env_b fargs
                        (snd (fastgpt_execute d fcfg env_a fargs w)))
                = Inr (jsonResult (fastgptPayload (fastgptParams d fcfg k_b q fargs) env_b r_b))
              \<and> fst (fastgpt_execute d fcfg env_a fargs w)
                \<noteq> fst (fastgpt_execute d fcfg env_b fargs
                          (snd (fastgpt_execute d fcfg env_a fargs w)))"
    if "resolveKagiApiKey d fcfg (KAGI_API_KEY env_a) = Some k_a"
      "resolveKagiApiKey d fcfg (KAGI_API_KEY env_b) = Some k_b"
      "readStringParamRequired d fargs ''query'' = Inr q"
      "fetch env_a (fastgptRequest (fastgptParams d fcfg k_a q fargs)) = Resolves rsp_a"
      "ok rsp_a" "json rsp_a = Inr r_a" "error r_a = None"
      "fetch env_b (fastgptRequest (fastgptParams d fcfg k_b q fargs)) = Resolves rsp_b"
      "ok rsp_b" "json rsp_b = Inr r_b" "error r_b = None"
      "upstream_output r_a \<noteq> upstream_output r_b"
    using fastgpt_execute_uncached_success [OF assms(2) that(1) that(3) that(4-7)]
      fastgpt_execute_uncached_success [OF assms(2) that(2) that(3) that(8-11)]
      fastgptPayload_distinct [OF that(12)]
    by simp
  show ?thesis
    using s(1) [of env w] s(2) [of env w] s(3) [of env w w']
      f(1) [of env w] f(2) [of env w] f(3) [of env w w'] two_s two_f
    by blast
qed

theorem cache_bypass_witness:
  "SUMMARIZE_CACHE (snd (summarize_execute example_deps None
       (example_env (Some ''key'') (Resolves (answer ''first''))) uncached_args empty_world))
     = SUMMARIZE_CACHE empty_world
   \<and> fst (summarize_execute example_deps None
       (example_env (Some ''key'') (Resolves (answer ''first''))) uncached_args empty_world)
     \<noteq> fst (summarize_execute example_deps None
       (example_env (Some ''key'') (Resolves (answer ''second''))) uncached_args
       (snd (summarize_execute example_deps None
          (example_env (Some ''key'') (Resolves (answer ''first''))) uncached_args empty_world)))
   \<and> FASTGPT_CACHE (snd (fastgpt_execute example_deps None
       (example_env (Some ''key'') (Resolves (answer ''first''))) uncached_query empty_world))
     = FASTGPT_CACHE empty_world
   \<and> fst (fastgpt_execute example_deps None
       (example_env (Some ''key'') (Resolves (answer ''first''))) uncached_query empty_world)
     \<noteq> fst (fastgpt_execute example_deps None
       (example_env (Some ''key'') (Resolves (answer ''second''))) uncached_query
       (snd (fastgpt_execute example_deps None
          (example_env (Some ''key'') (Resolves (answer ''first''))) uncached_query empty_world)))"
proof -
  let ?e1 = "example_env (Some ''key'') (Resolves (answer ''first''))"
  let ?e2 = "example_env (Some ''key'') (Resolves (answer ''second''))"
  have off: "(case readBoolParam example_deps uncached_args ''cache'' of
                Some b \<Rightarrow> b | None \<Rightarrow> resolveDefaultCache (None :: summarizer_config option)) = False"
    "(case readBoolParam example_deps uncached_query ''cache'' of
                Some b \<Rightarrow> b | None \<Rightarrow> resolveDefaultCache (None :: kagi_config option)) = False"
    by (simp_all add: example_deps_def uncached_args_def uncached_query_def)
  have hyp: "truthy_str (readStringParam example_deps uncached_args ''url'')
               \<noteq> truthy_str (readStringParam example_deps uncached_args ''text'')"
    "readStringParamRequired example_deps uncached_query ''query'' = Inr ''why is the sky blue''"
    "fetch ?e1 req = Resolves (answer ''first'')" "fetch ?e2 req = Resolves (answer ''second'')"
    "ok (answer s)"
    "json (answer s)
       = Inr \<lparr>meta = None,
              data = Some \<lparr>data_output = Some s, tokens = None, references = None\<rparr>,
              error = None\<rparr>"
    "upstream_output \<lparr>meta = None,
              data = Some \<lparr>data_output = Some ''first'', tokens = None, references = None\<rparr>,
              error = None\<rparr>
       \<noteq> upstream_output \<lparr>meta = None,
              data = Some \<lparr>data_output = Some ''second'', tokens = None, references = None\<rparr>,
              error = None\<rparr>"
    for req s
    by (simp_all add: example_deps_def uncached_args_def uncached_query_def truthy_str_def
          example_env_def answer_def upstream_output_def)
  have keys:
    "resolveKagiApiKey example_deps (None :: summarizer_config option) (KAGI_API_KEY ?e1) = Some ''key''"
    "resolveKagiApiKey example_deps (None :: summarizer_config option) (KAGI_API_KEY ?e2) = Some ''key''"
    "resolveKagiApiKey example_deps (None :: kagi_config option) (KAGI_API_KEY ?e1) = Some ''key''"
    "resolveKagiApiKey example_deps (None :: kagi_config option) (KAGI_API_KEY ?e2) = Some ''key''"
    by (rule example_key)+
  show ?thesis
    using cache_bypass [OF off, where env = ?e1 and w = empty_world and w' = empty_world and env_a = ?e1
        and env_b = ?e2 and k_a = "''key''" and k_b = "''key''"
        and rsp_a = "answer ''first''" and rsp_b = "answer ''second''"
        and r_a = "\<lparr>meta = None,
              data = Some \<lparr>data_output = Some ''first'', tokens = None, references = None\<rparr>,
              error = None\<rparr>"
        and r_b = "\<lparr>meta = None,
              data = Some \<lparr>data_output = Some ''second'', tokens = None, references = None\<rparr>,
              error = None\<rparr>"
        and q = "''why is the sky blue''"]
      hyp keys
    by (simp add: summarizePayload_def fastgptPayload_def upstream_output_def)
qed

text \<open>
  C1 (as amended). Once the credential resolves, the input is valid and the cache gives
  no live entry, a provider-facing failure leaves \<open>execute\<close> as an exception: a
  rejected \<open>fetch\<close> (a timeout) propagates as it is, a non-2xx status throws an \<open>Error\<close>
  carrying the status and the detail text (the status text when there is no detail), and
  a 2xx response whose body carries an error object throws an \<open>Error\<close> carrying its
  message (\<open>Unknown error\<close> when it has none). This holds for the summarizer and for
  FastGPT.
\<close>

theorem upstream_failures_throw:
  assumes "resolveKagiApiKey d cfg (KAGI_API_KEY env) = Some key"
    and "truthy_str (readStringParam d args ''url'') \<noteq> truthy_str (readStringParam d args ''text'')"
    and "p_cache (summarizeParams d cfg key args) \<longrightarrow>
           fst (readCache (now_read env) (SUMMARIZE_CACHE w)
                  (summarizeCacheKey d (summarizeParams d cfg key args))) = None"
    and "resolveKagiApiKey d fcfg (KAGI_API_KEY env) = Some fkey"
    and "readStringParamRequired d fargs ''query'' = Inr q"
    and "q_cache (fastgptParams d fcfg fkey q fargs) \<longrightarrow>
           fst (readCache (now_read env) (FASTGPT_CACHE w)
                  (fastgptCacheKey d (fastgptParams d fcfg fkey q fargs))) = None"
  shows "(fetch env (summarizeRequest (summarizeParams d cfg key args)) = Rejects x
          \<longrightarrow> fst (summarize_execute d cfg env args w) = Inl x)
       \<and> (fetch env (summarizeRequest (summarizeParams d cfg key args)) = Resolves rsp
            \<and> \<not> ok rsp
          \<longrightarrow> fst (summarize_execute d cfg env args w)
                = Inl (Error (''Kagi Summarizer API error ('' @ show_nat (status rsp) @ ''): ''
                        @ (if readResponseText d rsp = [] then statusText rsp
                           else readResponseText d rsp))))
       \<and> (fetch env (summarizeRequest (summarizeParams d cfg key args)) = Resolves rsp
            \<and> ok rsp \<and> json rsp = Inr r \<and> error r = Some err
          \<longrightarrow> fst (summarize_execute d cfg env args w)
                = Inl (Error (''Kagi Summarizer API error: ''
                        @ str_or (msg err) ''Unknown error'')))
       \<and> (fetch env (fastgptRequest (fastgptParams d fcfg fkey q fargs)) = Rejects x
          \<longrightarrow> fst (fastgpt_execute d fcfg env fargs w) = Inl x)
       \<and> (fetch env (fastgptRequest (fastgptParams d fcfg fkey q fargs)) = Resolves rsp
            \<and> \<not> ok rsp
          \<longrightarrow> fst (fastgpt_execute d fcfg env fargs w)
                = Inl (Error (''Kagi FastGPT API error ('' @ show_nat (status rsp) @ ''): ''
                        @ (if readResponseText d rsp = [] then statusText rsp
                           else readResponseText d rsp))))
       \<and> (fetch env (fastgptRequest (fastgptParams d fcfg fkey q fargs)) = Resolves rsp
            \<and> ok rsp \<and> json rsp = Inr r \<and> error r = Some err
          \<longrightarrow> fst (fastgpt_execute d fcfg env fargs w)
                = Inl (Error (''Kagi FastGPT API error: ''
                        @ str_or (msg err) ''Unknown error'')))"
  using summarize_execute_run(1) [OF assms(1,2), of w]
    runSummarize_rejects [OF assms(3), of x]
    runSummarize_not_ok [OF assms(3), of rsp]
    runSummarize_logical_error [OF assms(3), of rsp r err]
    fastgpt_execute_run(1) [OF assms(4,5), of w]
    runFastGPT_rejects [OF assms(6), of x]
    runFastGPT_not_ok [OF assms(6), of rsp]
    runFastGPT_logical_error [OF assms(6), of rsp r err]
  by simp

theorem upstream_failures_throw_witness:
  "fst (summarize_execute example_deps None (example_env (Some ''key'') timed_out)
          url_args empty_world)
     = Inl (TimeoutError ''The operation was aborted due to timeout'')
   \<and> fst (summarize_execute example_deps None
            (example_env (Some ''key'') (Resolves server_error)) url_args empty_world)
     = Inl (Error ''Kagi Summarizer API error (500): Internal Server Error'')
   \<and> fst (summarize_execute example_deps None
            (example_env (Some ''key'') (Resolves logical_error)) url_args empty_world)
     = Inl (Error ''Kagi Summarizer API error: Insufficient credit'')
   \<and> fst (fastgpt_execute example_deps None (example_env (Some ''key'') timed_out)
            query_args empty_world)
     = Inl (TimeoutError ''The operation was aborted due to timeout'')
   \<and> fst (fastgpt_execute example_deps None
            (example_env (Some ''key'') (Resolves server_error)) query_args empty_world)
     = Inl (Error ''Kagi FastGPT API error (500): Internal Server Error'')
   \<and> fst (fastgpt_execute example_deps None
            (example_env (Some ''key'') (Resolves logical_error)) query_args empty_world)
     = Inl (Error ''Kagi FastGPT API error: Insufficient credit'')"
proof -
  have ks: "resolveKagiApiKey example_deps (None :: summarizer_config option)
              (KAGI_API_KEY (example_env (Some ''key'') out)) = Some ''key''" for out
    by (rule example_key)
  have kf: "resolveKagiApiKey example_deps (None :: kagi_config option)
              (KAGI_API_KEY (example_env (Some ''key'') out)) = Some ''key''" for out
    by (rule example_key)
  have valid: "truthy_str (readStringParam example_deps url_args ''url'')
                 \<noteq> truthy_str (readStringParam example_deps url_args ''text'')"
    by (simp add: example_deps_def url_args_def truthy_str_def)
  have q: "readStringParamRequired example_deps query_args ''query'' = Inr ''why is the sky blue''"
    by (simp add: example_deps_def query_args_def)
  have ms: "p_cache (summarizeParams example_deps None ''key'' url_args) \<longrightarrow>
              fst (readCache (now_read (example_env (Some ''key'') out))
                     (SUMMARIZE_CACHE empty_world)
                     (summarizeCacheKey example_deps
                        (summarizeParams example_deps None ''key'' url_args))) = None" for out
    by (simp add: readCache_def empty_world_def)
  have mf: "q_cache (fastgptParams example_deps None ''key'' ''why is the sky blue'' query_args)
              \<longrightarrow>
              fst (readCache (now_read (example_env (Some ''key'') out))
                     (FASTGPT_CACHE empty_world)
                     (fastgptCacheKey example_deps
                        (fastgptParams example_deps None ''key'' ''why is the sky blue''
                           query_args))) = None" for out
    by (simp add: readCache_def empty_world_def)
  note T = upstream_failures_throw [OF ks valid ms kf q mf]
  have f: "fetch (example_env (Some ''key'') out) req = out" for out req
    by (simp add: example_env_def)
  show ?thesis
    using T [of timed_out "TimeoutError ''The operation was aborted due to timeout''"]
      T [of "Resolves server_error" _ server_error]
      T [of "Resolves logical_error" _ logical_error
           "\<lparr>meta = None, data = None,
              error = Some \<lparr>code = Some 1, msg = Some ''Insufficient credit''\<rparr>\<rparr>"
           "\<lparr>code = Some 1, msg = Some ''Insufficient credit''\<rparr>"]
    by (simp add: f timed_out_def server_error_def logical_error_def example_deps_def
          str_or_def show_nat.simps digit_char_def)
qed

text \<open>
  C1 as stated fails: against an upstream that answers 500, the summarizer's \<open>execute\<close>
  throws instead of returning a structured result.
\<close>

theorem upstream_error_throws_counterexample:
  "fst (summarize_execute example_deps None (example_env (Some ''key'') (Resolves server_error))
          [''url'' \<mapsto> JStr ''https://example.com''] empty_world)
     = Inl (Error ''Kagi Summarizer API error (500): Internal Server Error'')"
  by (simp add: exec_eval case_eval show_nat.simps digit_char_def)

section \<open>Cache keys\<close>


lemma fastgptRawKey_inj:
  "(fastgptRawKey p1 = fastgptRawKey p2) = (q_query p1 = q_query p2 \<and> q_cache p1 = q_cache p2)"
proof -
  have ne: "a @ '':true'' \<noteq> b @ '':false''" for a b :: string
  proof
    assume "a @ '':true'' = b @ '':false''"
    then have "rev (a @ '':true'') = rev (b @ '':false'')" by simp
    then show False by simp
  qed
  show ?thesis
    using ne [of "q_query p1" "q_query p2"] ne [of "q_query p2" "q_query p1"]
    by (cases "q_cache p1"; cases "q_cache p2") (auto simp: fastgptRawKey_def show_bool_def)
qed

lemma summarizeRawKey_digest:
  assumes "\<not> truthy_str (p_url p1)" and "\<not> truthy_str (p_url p2)"
    and "16 \<le> length (sha256_hex d (str_or (p_text p1) []))"
    and "16 \<le> length (sha256_hex d (str_or (p_text p2) []))"
    and "take 16 (sha256_hex d (str_or (p_text p1) []))
           \<noteq> take 16 (sha256_hex d (str_or (p_text p2) []))"
  shows "summarizeRawKey d p1 \<noteq> summarizeRawKey d p2"
proof
  assume eq: "summarizeRawKey d p1 = summarizeRawKey d p2"
  let ?s1 = "take 16 (sha256_hex d (str_or (p_text p1) []))"
  let ?s2 = "take 16 (sha256_hex d (str_or (p_text p2) []))"
  have len: "length ?s1 = length ?s2"
    using assms(3,4) by simp
  from eq assms(1,2) have "?s1 @ ('':'' @ p_engine p1 @ '':'' @ p_summaryType p1 @ '':''
         @ str_or (p_targetLanguage p1) ''auto'' @ '':'' @ show_bool (p_cache p1))
      = ?s2 @ ('':'' @ p_engine p2 @ '':'' @ p_summaryType p2 @ '':''
         @ str_or (p_targetLanguage p2) ''auto'' @ '':'' @ show_bool (p_cache p2))"
    by (simp add: summarizeRawKey_def summarizeSourceKey_def)
  with len have "?s1 = ?s2"
    using append_eq_append_conv by blast
  with assms(5) show False by simp
qed

text \<open>
  C3 (as amended). For a text input the summarizer puts into its key only the first 16
  hex digits of the SHA-256 digest of the text: that part has at most 16 characters
  whatever the length of the text, two texts with the same digest prefix give the same
  key, and two texts whose digests (of at least 16 digits) differ in that prefix give
  different keys before normalisation. A URL is put into the summarizer's key verbatim,
  and so is the query into FastGPT's key, which is \<open>kagi-fastgpt:\<close>, the query, a colon
  and the cache flag: two FastGPT keys are equal before normalisation exactly when the
  queries and the flags are.
\<close>

theorem cache_key_parts:
  "(\<not> truthy_str (p_url params)
      \<longrightarrow> summarizeSourceKey d params = take 16 (sha256_hex d (str_or (p_text params) []))
          \<and> length (summarizeSourceKey d params) \<le> 16)
   \<and> (\<not> truthy_str (p_url params)
        \<and> take 16 (sha256_hex d (str_or (p_text params) []))
            = take 16 (sha256_hex d (str_or other_text []))
      \<longrightarrow> summarizeCacheKey d (params\<lparr>p_text := other_text\<rparr>) = summarizeCacheKey d params)
   \<and> (\<not> truthy_str (p_url params) \<and> \<not> truthy_str (p_url params')
        \<and> 16 \<le> length (sha256_hex d (str_or (p_text params) []))
        \<and> 16 \<le> length (sha256_hex d (str_or (p_text params') []))
        \<and> take 16 (sha256_hex d (str_or (p_text params) []))
            \<noteq> take 16 (sha256_hex d (str_or (p_text params') []))
      \<longrightarrow> summarizeRawKey d params \<noteq> summarizeRawKey d params')
   \<and> (truthy_str (p_url params) \<longrightarrow> summarizeSourceKey d params = the (p_url params))
   \<and> fastgptRawKey q = ''kagi-fastgpt:'' @ q_query q @ '':'' @ show_bool (q_cache q)
   \<and> (fastgptRawKey q = fastgptRawKey q') = (q_query q = q_query q' \<and> q_cache q = q_cache q')"
  using summarizeRawKey_digest [of params params' d] fastgptRawKey_inj [of q q']
  by (simp add: summarizeSourceKey_def summarizeCacheKey_def summarizeRawKey_def
        fastgptRawKey_def)

theorem cache_key_parts_witness:
  "summarizeSourceKey example_deps (text_params (Some ''a'')) = ''ca978112ca1bbdca''
   \<and> summarizeCacheKey example_deps ((text_params None)\<lparr>p_text := Some []\<rparr>)
       = summarizeCacheKey example_deps (text_params None)
   \<and> summarizeRawKey example_deps (text_params (Some ''a''))
       \<noteq> summarizeRawKey example_deps (text_params (Some ''b''))
   \<and> summarizeSourceKey example_deps (url_params ''https://example.com'')
       = ''https://example.com''
   \<and> fastgptRawKey (query_params ''why'') \<noteq> fastgptRawKey (query_params ''how'')"
  using cache_key_parts [of "text_params (Some ''a'')" example_deps "Some ''a''"
          "text_params (Some ''b'')" "query_params ''why''" "query_params ''how''"]
        cache_key_parts [of "text_params None" example_deps "Some []"
          "text_params None" "query_params ''why''" "query_params ''how''"]
        cache_key_parts [of "url_params ''https://example.com''" example_deps "None"
          "text_params None" "query_params ''why''" "query_params ''how''"]
  by (simp add: text_params_def url_params_def query_params_def example_deps_def
        example_digest_def truthy_str_def str_or_def)

text \<open>
  C3 as stated fails for FastGPT: the query is in the key verbatim, not as a digest, and
  the key grows with the query.
\<close>

theorem fastgpt_key_verbatim_counterexample:
  "fastgptRawKey (query_params
      ''What is the tallest mountain on Earth, and how was its height first measured?'')
     = ''kagi-fastgpt:What is the tallest mountain on Earth, and how was its height first measured?:true''
   \<and> length (fastgptRawKey (query_params (replicate 1000 CHR ''x''))) = 1018"
  by (simp add: fastgptRawKey_def query_params_def show_bool_def)

section \<open>Responses of the webhook handler\<close>


lemma is_text_to_str: "is_text v \<Longrightarrow> \<exists>s. to_str v = Inr s"
  by (cases v) (simp_all add: is_text_def)

lemma is_text_truthy: "is_text v \<Longrightarrow> truthy v \<Longrightarrow> \<exists>s. v = JStr s"
  by (cases v) (simp_all add: is_text_def)

lemma shaped_not_nullish: "postmark_shaped email \<Longrightarrow> \<not> nullish email"
  by (cases email) (simp_all add: postmark_shaped_def nullish_def)

lemma get_prop_shaped: "postmark_shaped email \<Longrightarrow> get_prop email k = Inr (property email k)"
  by (simp add: get_prop_def shaped_not_nullish)

lemma receivedLine_shaped:
  assumes "postmark_shaped email"
  shows "\<exists>l. receivedLine email = Inr l"
proof -
  obtain s1 where s1: "to_str (property email ''Subject'') = Inr s1"
    using assms is_text_to_str by (auto simp: postmark_shaped_def)
  obtain s2 where s2: "to_str (property email ''From'') = Inr s2"
    using assms is_text_to_str by (auto simp: postmark_shaped_def)
  show ?thesis
    by (simp add: receivedLine_def get_prop_shaped [OF assms] bind_exn_def s1 s2)
qed

lemma textBodyOf_shaped:
  assumes "postmark_shaped email"
  shows "\<exists>s. textBodyOf email = Inr (JStr s)"
proof -
  have a: "is_text (property email ''StrippedTextReply'')" "is_text (property email ''TextBody'')"
    using assms by (simp_all add: postmark_shaped_def)
  show ?thesis
    using is_text_truthy [OF a(1)] is_text_truthy [OF a(2)]
    by (auto simp: textBodyOf_def get_prop_shaped [OF assms] bind_exn_def js_or_def)
qed

lemma formatMessage_shaped:
  assumes "postmark_shaped email"
  shows "\<exists>m. formatMessage wd email (JStr s) = Inr m"
proof -
  obtain s1 where s1: "to_str (property email ''Subject'') = Inr s1"
    using assms is_text_to_str by (auto simp: postmark_shaped_def)
  obtain s2 where s2: "to_str (property email ''From'') = Inr s2"
    using assms is_text_to_str by (auto simp: postmark_shaped_def)
  obtain s3 where s3: "to_str (opt_prop (property email ''FromFull'') ''Name'') = Inr s3"
    using assms is_text_to_str by (auto simp: postmark_shaped_def)
  show ?thesis
    by (simp add: formatMessage_def get_prop_shaped [OF assms] bind_exn_def s1 s2 s3
          boundedText_def)
qed

lemma tryBlock_shaped:
  assumes "readJsonBody wd req = Inr email" and "postmark_shaped email"
  shows "fst (tryBlock wd req st) = Inr ()"
    and "res (snd (tryBlock wd req st))
           = (res st)\<lparr>statusCode := 200,
                res_headers := AList.update ''Content-Type'' ''application/json; charset=utf-8''
                                 (res_headers (res st)),
                ended := Some (JObj [(''ok'', JBool True),
                                     (''messageId'', property email ''MessageID'')])\<rparr>"
proof -
  obtain l where l: "receivedLine email = Inr l"
    using receivedLine_shaped [OF assms(2)] by blast
  obtain s where s: "textBodyOf email = Inr (JStr s)"
    using textBodyOf_shaped [OF assms(2)] by blast
  obtain m where m: "formatMessage wd email (JStr s) = Inr m"
    using formatMessage_shaped [OF assms(2)] by blast
  show "fst (tryBlock wd req st) = Inr ()"
    by (simp add: tryBlock_def assms(1) l s m bind_exn_def Let_def
          get_prop_shaped [OF assms(2)])
  show "res (snd (tryBlock wd req st))
           = (res st)\<lparr>statusCode := 200,
                res_headers := AList.update ''Content-Type'' ''application/json; charset=utf-8''
                                 (res_headers (res st)),
                ended := Some (JObj [(''ok'', JBool True),
                                     (''messageId'', property email ''MessageID'')])\<rparr>"
    by (simp add: tryBlock_def assms(1) l s m bind_exn_def Let_def
          get_prop_shaped [OF assms(2)] sendJson_def log_line_def)
qed

lemma tryBlock_parse_failure:
  "readJsonBody wd req = Inl x \<Longrightarrow> tryBlock wd req st = (Inl x, st)"
  by (simp add: tryBlock_def)

lemma tryBlock_null:
  "readJsonBody wd req = Inr JNull \<Longrightarrow> \<exists>x. tryBlock wd req st = (Inl x, st)"
  by (simp add: tryBlock_def receivedLine_def get_prop_def nullish_def bind_exn_def)

lemma tryBlock_telegram: "telegram (snd (tryBlock wd req st)) = telegram st"
  by (auto simp: tryBlock_def Let_def log_line_def sendJson_def split: sum.splits)

lemma handler_unfold:
  assumes "URL_pathname wd (case req_url req of None \<Rightarrow> ''/'' | Some u \<Rightarrow> u) = Inr p"
  shows "createPostmarkWebhookHandler wd req st =
     (let st1 = log_line Info
                  (''Postmark handler called: ''
                     @ (case req_method req of None \<Rightarrow> ''undefined'' | Some m \<Rightarrow> m)
                     @ '' '' @ p) st
      in if p \<noteq> ''/webhooks/postmark'' then (Inr False, st1)
         else if req_method req \<noteq> Some ''POST''
         then (Inr True, sendJson st1 405 (JObj [(''error'', JStr ''Method not allowed'')]))
         else
           (case tryBlock wd req st1 of
              (Inr u, st2) \<Rightarrow> (Inr True, st2)
            | (Inl err, st2) \<Rightarrow>
                (Inr True,
                 sendJson
                   (log_line ErrorLevel (''Postmark webhook error: '' @ exn_to_string err) st2)
                   400 (JObj [(''error'', JStr ''Invalid payload'')]))))"
  using assms by (simp add: createPostmarkWebhookHandler_def)

lemma handler_not_claimed:
  assumes "URL_pathname wd (case req_url req of None \<Rightarrow> ''/'' | Some u \<Rightarrow> u) = Inr p"
    and "p \<noteq> ''/webhooks/postmark''"
  shows "fst (createPostmarkWebhookHandler wd req st) = Inr False"
    and "res (snd (createPostmarkWebhookHandler wd req st)) = res st"
  using assms(2) by (simp_all add: handler_unfold [OF assms(1)] Let_def log_line_def)

lemma handler_claims:
  assumes "URL_pathname wd (case req_url req of None \<Rightarrow> ''/'' | Some u \<Rightarrow> u)
             = Inr ''/webhooks/postmark''"
  shows "fst (createPostmarkWebhookHandler wd req st) = Inr True"
  by (simp add: handler_unfold [OF assms] Let_def split: prod.splits sum.splits)

lemma handler_wrong_method:
  assumes "URL_pathname wd (case req_url req of None \<Rightarrow> ''/'' | Some u \<Rightarrow> u)
             = Inr ''/webhooks/postmark''"
    and "req_method req \<noteq> Some ''POST''"
  shows "statusCode (res (snd (createPostmarkWebhookHandler wd req st))) = 405"
    and "ended (res (snd (createPostmarkWebhookHandler wd req st)))
           = Some (JObj [(''error'', JStr ''Method not allowed'')])"
  using assms(2) by (simp_all add: handler_unfold [OF assms(1)] Let_def sendJson_def)

lemma handler_shaped:
  assumes "URL_pathname wd (case req_url req of None \<Rightarrow> ''/'' | Some u \<Rightarrow> u)
             = Inr ''/webhooks/postmark''"
    and "req_method req = Some ''POST''"
    and "readJsonBody wd req = Inr email" and "postmark_shaped email"
  shows "statusCode (res (snd (createPostmarkWebhookHandler wd req st))) = 200"
    and "ended (res (snd (createPostmarkWebhookHandler wd req st)))
           = Some (JObj [(''ok'', JBool True), (''messageId'', property email ''MessageID'')])"
proof -
  define st1 where "st1 = log_line Info ''Postmark handler called: POST /webhooks/postmark'' st"
  obtain r st2 where t: "tryBlock wd req st1 = (r, st2)"
    by (cases "tryBlock wd req st1")
  have r: "r = Inr ()"
    using tryBlock_shaped(1) [OF assms(3,4), of st1] t by simp
  have st2: "statusCode (res st2) = 200"
    "ended (res st2) = Some (JObj [(''ok'', JBool True), (''messageId'', property email ''MessageID'')])"
    using tryBlock_shaped(2) [OF assms(3,4), of st1] t by simp_all
  have h: "createPostmarkWebhookHandler wd req st = (Inr True, st2)"
    using assms(2) t r by (simp add: handler_unfold [OF assms(1)] st1_def [symmetric])
  show "statusCode (res (snd (createPostmarkWebhookHandler wd req st))) = 200"
    and "ended (res (snd (createPostmarkWebhookHandler wd req st)))
           = Some (JObj [(''ok'', JBool True), (''messageId'', property email ''MessageID'')])"
    using st2 by (simp_all add: h)
qed

lemma handler_invalid:
  assumes "URL_pathname wd (case req_url req of None \<Rightarrow> ''/'' | Some u \<Rightarrow> u)
             = Inr ''/webhooks/postmark''"
    and "req_method req = Some ''POST''"
    and "readJsonBody wd req = Inl x \<or> readJsonBody wd req = Inr JNull"
  shows "statusCode (res (snd (createPostmarkWebhookHandler wd req st))) = 400"
    and "ended (res (snd (createPostmarkWebhookHandler wd req st)))
           = Some (JObj [(''error'', JStr ''Invalid payload'')])"
proof -
  define st1 where "st1 = log_line Info ''Postmark handler called: POST /webhooks/postmark'' st"
  obtain y where t: "tryBlock wd req st1 = (Inl y, st1)"
    using assms(3) tryBlock_parse_failure [of wd req _ st1] tryBlock_null [of wd req st1]
    by blast
  have h: "createPostmarkWebhookHandler wd req st
             = (Inr True,
                 sendJson
                   (log_line ErrorLevel (''Postmark webhook error: '' @ exn_to_string y) st1)
                   400 (JObj [(''error'', JStr ''Invalid payload'')]))"
    using assms(2) t by (simp add: handler_unfold [OF assms(1)] st1_def [symmetric])
  show "statusCode (res (snd (createPostmarkWebhookHandler wd req st))) = 400"
    and "ended (res (snd (createPostmarkWebhookHandler wd req st)))
           = Some (JObj [(''error'', JStr ''Invalid payload'')])"
    by (simp_all add: h sendJson_def)
qed

text \<open>
  C7 (as amended). For every inbound request whose URL parses: if the path is not
  \<open>/webhooks/postmark\<close> the handler returns "not claimed" and leaves the response as it
  was; once the path matches it always claims the request; with a method other than POST
  it answers 405 \<open>{error: "Method not allowed"}\<close>; a POST whose body parses to an object
  of the expected shape is answered 200 \<open>{ok: true, messageId}\<close> with the payload's
  \<open>MessageID\<close>; a POST whose body does not parse (or whose stream fails), or parses to
  \<open>null\<close>, is answered 400 \<open>{error: "Invalid payload"}\<close>.
\<close>

theorem webhook_responses:
  assumes "URL_pathname wd (case req_url req of None \<Rightarrow> ''/'' | Some u \<Rightarrow> u) = Inr p"
  shows "(p \<noteq> ''/webhooks/postmark''
          \<longrightarrow> fst (createPostmarkWebhookHandler wd req st) = Inr False
              \<and> res (snd (createPostmarkWebhookHandler wd req st)) = res st)
       \<and> (p = ''/webhooks/postmark''
          \<longrightarrow> fst (createPostmarkWebhookHandler wd req st) = Inr True)
       \<and> (p = ''/webhooks/postmark'' \<and> req_method req \<noteq> Some ''POST''
          \<longrightarrow> statusCode (res (snd (createPostmarkWebhookHandler wd req st))) = 405
              \<and> ended (res (snd (createPostmarkWebhookHandler wd req st)))
                  = Some (JObj [(''error'', JStr ''Method not allowed'')]))
       \<and> (p = ''/webhooks/postmark'' \<and> req_method req = Some ''POST''
            \<and> readJsonBody wd req = Inr email \<and> postmark_shaped email
          \<longrightarrow> statusCode (res (snd (createPostmarkWebhookHandler wd req st))) = 200
              \<and> ended (res (snd (createPostmarkWebhookHandler wd req st)))
                  = Some (JObj [(''ok'', JBool True),
                                (''messageId'', property email ''MessageID'')]))
       \<and> (p = ''/webhooks/postmark'' \<and> req_method req = Some ''POST''
            \<and> (readJsonBody wd req = Inl x \<or> readJsonBody wd req = Inr JNull)
          \<longrightarrow> statusCode (res (snd (createPostmarkWebhookHandler wd req st))) = 400
              \<and> ended (res (snd (createPostmarkWebhookHandler wd req st)))
                  = Some (JObj [(''error'', JStr ''Invalid payload'')]))"
  using handler_not_claimed [OF assms, of st] handler_claims [of wd req st]
    handler_wrong_method [of wd req st] handler_shaped [of wd req email st]
    handler_invalid [of wd req x st] assms
  by blast

theorem webhook_responses_witness:
  "fst (createPostmarkWebhookHandler example_webhook_deps (get_request ''/health'') fresh_state)
     = Inr False
   \<and> res (snd (createPostmarkWebhookHandler example_webhook_deps (get_request ''/health'')
          fresh_state)) = res fresh_state
   \<and> fst (createPostmarkWebhookHandler example_webhook_deps
          (get_request ''/webhooks/postmark'') fresh_state) = Inr True
   \<and> statusCode (res (snd (createPostmarkWebhookHandler example_webhook_deps
          (get_request ''/webhooks/postmark'') fresh_state))) = 405
   \<and> statusCode (res (snd (createPostmarkWebhookHandler example_webhook_deps
          (post_request [example_body]) fresh_state))) = 200
   \<and> ended (res (snd (createPostmarkWebhookHandler example_webhook_deps
          (post_request [example_body]) fresh_state)))
       = Some (JObj [(''ok'', JBool True), (''messageId'', JStr ''m-1'')])
   \<and> statusCode (res (snd (createPostmarkWebhookHandler example_webhook_deps
          (post_request [''not json'']) fresh_state))) = 400"
proof -
  have p1: "URL_pathname example_webhook_deps
              (case req_url (get_request u) of None \<Rightarrow> ''/'' | Some v \<Rightarrow> v) = Inr u" for u
    by (simp add: example_webhook_deps_def get_request_def)
  have p2: "URL_pathname example_webhook_deps
              (case req_url (post_request cs) of None \<Rightarrow> ''/'' | Some v \<Rightarrow> v)
              = Inr ''/webhooks/postmark''" for cs
    by (simp add: example_webhook_deps_def post_request_def)
  have m: "req_method (get_request u) \<noteq> Some ''POST''"
    "req_method (post_request cs) = Some ''POST''" for u cs
    by (simp_all add: get_request_def post_request_def)
  have b: "readJsonBody example_webhook_deps (post_request [example_body]) = Inr example_email"
    "readJsonBody example_webhook_deps (post_request [''not json''])
       = Inl (SyntaxError ''Unexpected token'')"
    by (simp_all add: readJsonBody_def example_webhook_deps_def post_request_def
          example_body_def quoted_def)
  have sh: "postmark_shaped example_email"
    by (simp add: postmark_shaped_def is_text_def example_email_def property_def opt_prop_def
          nullish_def)
  have mid: "property example_email ''MessageID'' = JStr ''m-1''"
    by (simp add: example_email_def property_def)
  show ?thesis
    using webhook_responses [OF p1, of "''/health''" fresh_state]
      webhook_responses [OF p1, of "''/webhooks/postmark''" fresh_state]
      webhook_responses [OF p2, of "[example_body]" fresh_state example_email]
      webhook_responses [OF p2, of "[''not json'']" fresh_state _
        "SyntaxError ''Unexpected token''"]
      m b sh mid
    by simp
qed

lemmas webhook_eval = createPostmarkWebhookHandler_def tryBlock_def readJsonBody_def
  receivedLine_def textBodyOf_def formatMessage_def boundedText_def lengthText_def
  get_prop_def opt_prop_def property_def nullish_def js_or_def bind_exn_def sendJson_def
  log_line_def example_webhook_deps_def example_email_def example_body_def quoted_def
  fresh_state_def post_request_def Let_def

text \<open>
  C7 as stated fails for a valid JSON body that is not an email: the body \<open>null\<close>, sent
  in two chunks, is answered 400, not 200.
\<close>

theorem null_body_counterexample:
  "fst (createPostmarkWebhookHandler example_webhook_deps (post_request [''nu'', ''ll''])
          fresh_state) = Inr True
   \<and> statusCode (res (snd (createPostmarkWebhookHandler example_webhook_deps
          (post_request [''nu'', ''ll'']) fresh_state))) = 400
   \<and> ended (res (snd (createPostmarkWebhookHandler example_webhook_deps
          (post_request [''nu'', ''ll'']) fresh_state)))
       = Some (JObj [(''error'', JStr ''Invalid payload'')])"
  by (simp add: webhook_eval)

text \<open>Whatever the request, the handler hands nothing to the sink.\<close>

lemma telegram_log_line: "telegram (log_line lvl l st) = telegram st"
  by (simp add: log_line_def)

lemma telegram_sendJson: "telegram (sendJson st c b) = telegram st"
  by (simp add: sendJson_def)

lemma post_branch_telegram:
  "telegram (snd (case tryBlock wd req s of
                    (Inr u, st2) \<Rightarrow> (Inr True, st2)
                  | (Inl err, st2) \<Rightarrow> (Inr True, sendJson (log_line ErrorLevel (f err) st2) c b)))
     = telegram s"
  using tryBlock_telegram [of wd req s]
  by (cases "tryBlock wd req s")
     (auto simp: telegram_log_line telegram_sendJson split: sum.splits)

lemma handler_never_forwards:
  "telegram (snd (createPostmarkWebhookHandler wd req st)) = telegram st"
proof (cases "URL_pathname wd (case req_url req of None \<Rightarrow> ''/'' | Some u \<Rightarrow> u)")
  case (Inl x)
  then show ?thesis by (simp add: createPostmarkWebhookHandler_def)
next
  case (Inr p)
  show ?thesis
    by (simp add: handler_unfold [OF Inr] Let_def post_branch_telegram telegram_log_line
          telegram_sendJson)
qed

text \<open>
  C8. The claim is that the formatted message is forwarded to the messaging sink. At a
  well-formed inbound email the handler answers 200 and the message it builds prefers
  the stripped reply, but the sink has received nothing; and the transform returns the
  debug dump of the raw payload, not the formatted message.
\<close>

theorem message_built_and_dropped:
  "fst (createPostmarkWebhookHandler example_webhook_deps (post_request [example_body])
          fresh_state) = Inr True
   \<and> statusCode (res (snd (createPostmarkWebhookHandler example_webhook_deps
          (post_request [example_body]) fresh_state))) = 200
   \<and> bind_exn (textBodyOf example_email) (formatMessage example_webhook_deps example_email)
       = Inr (join_lines [emoji_email @ '' **New Email**'', [],
                ''**From:** alice@example.com'', ''**Subject:** Hello'', [], ''Short reply''])
   \<and> telegram (snd (createPostmarkWebhookHandler example_webhook_deps
          (post_request [example_body]) fresh_state)) = []
   \<and> take 36 (case map_of (transform example_webhook_deps example_email) ''message'' of
                 Some (JStr m) \<Rightarrow> m | _ \<Rightarrow> [])
       = emoji_magnifier @ '' **DEBUG: Raw Postmark Payload**''"
  by (simp add: webhook_eval transform_def emoji_magnifier_def)

end
